theory Spec2Isabelle
  imports Complex_Main "HOL-Library.Word"
begin

section \<open>Reconnection with exponential backoff (websocket-manager.ts)\<close>

text \<open>
  The manager keeps one \<open>WebSocketConnection\<close> per chain id in a \<open>Map\<close>, and the handle of
  the last reconnect timer per chain in a second \<open>Map\<close>. The transport handle \<open>ws\<close> is
  kept as a flag (is there a socket object or \<open>null\<close>); \<open>lastPing\<close> is a clock reading.
  The counters are JavaScript numbers holding small non-negative integers, modelled as
  \<open>nat\<close>. Console output and the activity-log inserts do not touch the manager's state
  and are left out.
\<close>

record WebSocketConnection =
  chainId :: nat
  chainName :: string
  ws :: bool
  isConnected :: bool
  reconnectAttempts :: nat
  lastPing :: nat
  subscriptions :: "string list"

text \<open>
  A pending timer is the delay (in milliseconds) \<open>setTimeout\<close> was called with; when it
  fires it calls \<open>connect\<close> for the chain.
\<close>

record WebSocketManager =
  connections :: "nat \<rightharpoonup> WebSocketConnection"
  reconnectIntervals :: "nat \<rightharpoonup> nat"

definition maxReconnectAttempts :: nat where
  "maxReconnectAttempts = 5"

definition reconnectDelay :: nat where
  "reconnectDelay = 5000"

text \<open>
  \<open>scheduleReconnect\<close> returns the manager after the call and the timer it has set:
  \<open>None\<close> when no \<open>setTimeout\<close> call was made.
\<close>

definition scheduleReconnect :: "WebSocketManager \<Rightarrow> nat \<Rightarrow> WebSocketManager \<times> nat option" where
  "scheduleReconnect m cid =
     (case connections m cid of
        None \<Rightarrow> (m, None)
      | Some connection \<Rightarrow>
          if reconnectAttempts connection \<ge> maxReconnectAttempts then (m, None)
          else
            let connection' = connection\<lparr>reconnectAttempts := reconnectAttempts connection + 1\<rparr>;
                delay = reconnectDelay * 2 ^ (reconnectAttempts connection' - 1)
            in (m\<lparr>connections := (connections m)(cid \<mapsto> connection'),
                   reconnectIntervals := (reconnectIntervals m)(cid \<mapsto> delay)\<rparr>,
                Some delay))"

section \<open>Liquidation amount (health-factor-calculator, analyzeLiquidationOpportunity)\<close>

text \<open>
  \<open>ethers.BigNumber\<close> is an unbounded integer; \<open>div\<close> truncates towards zero.
  \<open>parseUnits(s, 18)\<close> reads a decimal string as an integer number of units of 1e-18 and
  throws on a string that is not a decimal with at most 18 fractional digits: the parsed
  value is an \<open>int option\<close>, \<open>None\<close> for the throw.
\<close>

definition bn_div :: "int \<Rightarrow> int \<Rightarrow> int" where
  "bn_div a b = (if (a < 0) = (b < 0) then \<bar>a\<bar> div \<bar>b\<bar> else - (\<bar>a\<bar> div \<bar>b\<bar>))"

definition WAD :: int where
  "WAD = 10 ^ 18"

text \<open>
  The database row, with its three decimal strings already passed through \<open>parseUnits\<close>,
  and the opportunity built from it, with its amounts before \<open>formatUnits\<close>. The health
  factor and the liquidation threshold, which the function copies from the row unchanged, are
  left out of both.
\<close>

record position_row =
  user_address :: string
  collateral_asset :: string
  debt_asset :: string
  collateral_amount :: "int option"
  debt_amount :: "int option"
  liquidation_bonus :: "int option"

record LiquidationOpportunity =
  opp_user :: string
  opp_collateralAsset :: string
  opp_debtAsset :: string
  opp_collateralAmount :: int
  opp_debtAmount :: int
  opp_maxLiquidationAmount :: int
  opp_potentialProfit :: int
  opp_gasEstimate :: nat

definition maxLiquidationDebt :: "int \<Rightarrow> int" where
  "maxLiquidationDebt debtAmount = bn_div debtAmount 2"

definition maxLiquidationCollateral :: "int \<Rightarrow> int" where
  "maxLiquidationCollateral collateralAmount = bn_div (collateralAmount * (5 * 10 ^ 17)) WAD"

text \<open>
  The chain table of \<open>multi-chain-service.ts\<close>. Each entry of \<open>CHAIN_CONFIGS\<close> is an object
  literal, kept as the list of its properties in the order written; the entries are listed
  in the order \<open>Object.values\<close> walks them. Reading a property an object does not have
  gives \<open>undefined\<close>, here \<open>None\<close>.
\<close>

datatype js_value = JsString string | JsNumber nat

type_synonym js_object = "(string \<times> js_value) list"

definition property :: "js_object \<Rightarrow> string \<Rightarrow> js_value option" where
  "property obj name = map_of obj name"

definition CHAIN_CONFIGS :: "js_object list" where
  "CHAIN_CONFIGS =
     [[(''name'', JsString ''Ethereum''),
       (''chainId'', JsNumber 1),
       (''rpcUrl'', JsString ''https://eth-mainnet.g.alchemy.com/v2/7lLqtBjOl0BGBA_G1OKrz''),
       (''aavePoolAddress'', JsString ''0x87870Bca3F3fD6335C3F4ce8392D69350B4fA4E2''),
       (''uniswapRouterAddress'', JsString ''0x7a250d5630B4cF539739dF2C5dAcb4c659F2488D''),
       (''wethAddress'', JsString ''0xC02aaA39b223FE8D0A0e5C4F27eAD9083C756Cc2''),
       (''usdcAddress'', JsString ''0xA0b86a33E6441b8C4C8C0b4b4b4b4b4b4b4b4b4b4''),
       (''gasToken'', JsString ''0xC02aaA39b223FE8D0A0e5C4F27eAD9083C756Cc2''),
       (''gasTokenSymbol'', JsString ''ETH'')],
      [(''name'', JsString ''Optimism''),
       (''chainId'', JsNumber 10),
       (''rpcUrl'', JsString ''https://opt-mainnet.g.alchemy.com/v2/7lLqtBjOl0BGBA_G1OKrz''),
       (''aavePoolAddress'', JsString ''0x794a61358D6845594F94dc1DB02A252b5b4814aD''),
       (''uniswapRouterAddress'', JsString ''0xE592427A0AEce92De3Edee1F18E0157C05861564''),
       (''wethAddress'', JsString ''0x4200000000000000000000000000000000000006''),
       (''usdcAddress'', JsString ''0x7F5c764cBc14f9669B88837ca1490cCa17c31607''),
       (''gasToken'', JsString ''0x4200000000000000000000000000000000000006''),
       (''gasTokenSymbol'', JsString ''ETH'')],
      [(''name'', JsString ''Arbitrum''),
       (''chainId'', JsNumber 42161),
       (''rpcUrl'', JsString ''https://arb-mainnet.g.alchemy.com/v2/7lLqtBjOl0BGBA_G1OKrz''),
       (''aavePoolAddress'', JsString ''0x794a61358D6845594F94dc1DB02A252b5b4814aD''),
       (''uniswapRouterAddress'', JsString ''0xE592427A0AEce92De3Edee1F18E0157C05861564''),
       (''wethAddress'', JsString ''0x82aF49447D8a07e3bd95BD0d56f35241523fBab1''),
       (''usdcAddress'', JsString ''0xFF970A61A04b1cA14834A43f5dE4533eBDDB5CC8''),
       (''gasToken'', JsString ''0x82aF49447D8a07e3bd95BD0d56f35241523fBab1''),
       (''gasTokenSymbol'', JsString ''ETH'')],
      [(''name'', JsString ''Polygon''),
       (''chainId'', JsNumber 137),
       (''rpcUrl'', JsString ''https://poly-mainnet.g.alchemy.com/v2/7lLqtBjOl0BGBA_G1OKrz''),
       (''aavePoolAddress'', JsString ''0x794a61358D6845594F94dc1DB02A252b5b4814aD''),
       (''uniswapRouterAddress'', JsString ''0xE592427A0AEce92De3Edee1F18E0157C05861564''),
       (''wethAddress'', JsString ''0x0d500B1d8E8eF31E21C99d1Db9A6444d3ADf1270''),
       (''usdcAddress'', JsString ''0x2791Bca1f2de4661ED88A30C99A7a9449Aa84174''),
       (''gasToken'', JsString ''0x0d500B1d8E8eF31E21C99d1Db9A6444d3ADf1270''),
       (''gasTokenSymbol'', JsString ''POL'')]]"

text \<open>
  \<open>new ethers.Contract(addressOrName, abi, provider)\<close> throws unless it is given an address.
  A contract object is kept as its address and the endpoint of its provider; a thrown error
  is kept as its message.
\<close>

record Contract =
  contract_address :: string
  contract_provider :: string

definition new_Contract :: "js_value option \<Rightarrow> string \<Rightarrow> string + Contract" where
  "new_Contract addressOrName provider =
     (case addressOrName of
        Some (JsString a) \<Rightarrow> Inr \<lparr>contract_address = a, contract_provider = provider\<rparr>
      | _ \<Rightarrow> Inl ''invalid contract address or ENS name'')"

text \<open>
  The calculator object: its two maps, keyed by chain id. The constructor runs
  \<open>initializeProviders\<close>, which stores one JSON-RPC provider (kept as its endpoint,
  \<open>chain.rpcUrl\<close>) under \<open>chain.chainId\<close> for each entry of \<open>CHAIN_CONFIGS\<close>, and leaves
  \<open>poolContracts\<close> empty.
\<close>

record HealthFactorCalculator =
  hfc_providers :: "nat \<rightharpoonup> string"
  hfc_poolContracts :: "nat \<rightharpoonup> Contract"

definition initializeProviders :: "nat \<rightharpoonup> string" where
  "initializeProviders =
     fold (\<lambda>chain providers.
             case (property chain ''chainId'', property chain ''rpcUrl'') of
               (Some (JsNumber n), Some (JsString url)) \<Rightarrow> providers(n \<mapsto> url)
             | _ \<Rightarrow> providers)
          CHAIN_CONFIGS Map.empty"

definition new_HealthFactorCalculator :: HealthFactorCalculator where
  "new_HealthFactorCalculator =
     \<lparr>hfc_providers = initializeProviders, hfc_poolContracts = Map.empty\<rparr>"

text \<open>
  \<open>getPoolContract\<close>: the cached contract of the chain if there is one; otherwise the
  contract is built from the chain's provider and from \<open>chain.poolAddress\<close>, and cached.
  Each \<open>throw\<close> is an \<open>Inl\<close>.
\<close>

definition getPoolContract ::
  "HealthFactorCalculator \<Rightarrow> nat \<Rightarrow> string + (Contract \<times> HealthFactorCalculator)" where
  "getPoolContract calc chain_id =
     (case hfc_poolContracts calc chain_id of
        Some contract \<Rightarrow> Inr (contract, calc)
      | None \<Rightarrow>
          (case hfc_providers calc chain_id of
             None \<Rightarrow> Inl ''Provider not found for chain''
           | Some provider \<Rightarrow>
               (case find (\<lambda>c. property c ''chainId'' = Some (JsNumber chain_id)) CHAIN_CONFIGS of
                  None \<Rightarrow> Inl ''Chain not supported''
                | Some chain \<Rightarrow>
                    (case new_Contract (property chain ''poolAddress'') provider of
                       Inl e \<Rightarrow> Inl e
                     | Inr contract \<Rightarrow>
                         Inr (contract,
                              calc\<lparr>hfc_poolContracts := (hfc_poolContracts calc)(chain_id \<mapsto> contract)\<rparr>)))))"

text \<open>
  The function returns \<open>null\<close> (here \<open>None\<close>) when anything in its body throws: the
  lookup of the pool contract for the chain, which comes first, or one of the three
  \<open>parseUnits\<close>. The gas estimate (with its default of 500000 when the estimate fails) is a
  parameter. The calculator is returned with the result, for the cache \<open>getPoolContract\<close>
  may have filled.
\<close>

definition analyzeLiquidationOpportunity ::
  "HealthFactorCalculator \<Rightarrow> nat \<Rightarrow> nat \<Rightarrow> position_row
     \<Rightarrow> LiquidationOpportunity option \<times> HealthFactorCalculator" where
  "analyzeLiquidationOpportunity calc chain_id gas position =
     (case getPoolContract calc chain_id of
        Inl e \<Rightarrow> (None, calc)
      | Inr (poolContract, calc') \<Rightarrow>
          (case debt_amount position of None \<Rightarrow> (None, calc') | Some debtAmount \<Rightarrow>
           case collateral_amount position of None \<Rightarrow> (None, calc') | Some collateralAmount \<Rightarrow>
             let amount = (if maxLiquidationDebt debtAmount < maxLiquidationCollateral collateralAmount
                           then maxLiquidationDebt debtAmount
                           else maxLiquidationCollateral collateralAmount)
             in case liquidation_bonus position of None \<Rightarrow> (None, calc') | Some liquidationBonus \<Rightarrow>
                  (Some \<lparr>opp_user = user_address position,
                         opp_collateralAsset = collateral_asset position,
                         opp_debtAsset = debt_asset position,
                         opp_collateralAmount = collateralAmount,
                         opp_debtAmount = debtAmount,
                         opp_maxLiquidationAmount = amount,
                         opp_potentialProfit = bn_div (amount * liquidationBonus) WAD,
                         opp_gasEstimate = gas\<rparr>, calc')))"

section \<open>The on-chain executor (SimpleLiquidator.sol)\<close>

text \<open>
  Solidity 0.8 integers are 256-bit words whose \<open>+\<close>, \<open>-\<close> and \<open>*\<close> revert with
  \<open>Panic(0x11)\<close> instead of wrapping, and whose \<open>/\<close> reverts with \<open>Panic(0x12)\<close> on a zero
  divisor. A revert is a value of \<open>sol_error\<close>; the panic keeps apart which operation
  failed (the EVM reports overflow and underflow under the same code). A call into a token
  through \<open>SafeERC20\<close> that reverts is \<open>ExternalCallReverted\<close>; the three modifier errors
  are those of the inherited guards.
\<close>

type_synonym uint256 = "256 word"
type_synonym address = "160 word"

datatype panic_kind = ArithmeticOverflow | ArithmeticUnderflow | DivisionByZero

datatype sol_error =
    UnauthorizedCaller | InvalidInitiator | DeadlineExpired | InsufficientBalance
  | ZeroAddress | ZeroAmount | InvalidSlippage | InsufficientProfit | FlashLoanFailed
  | SlippageExceeded | InvalidPath | NoOutput | TokenNotAllowed | GetAmountsOutFailed
  | Panic panic_kind | ExternalCallReverted | ReentrantCall | EnforcedPause | NotOwner

definition checked_add :: "uint256 \<Rightarrow> uint256 \<Rightarrow> sol_error + uint256" where
  "checked_add a b = (if unat a + unat b < 2 ^ 256 then Inr (a + b) else Inl (Panic ArithmeticOverflow))"

definition checked_sub :: "uint256 \<Rightarrow> uint256 \<Rightarrow> sol_error + uint256" where
  "checked_sub a b = (if unat b \<le> unat a then Inr (a - b) else Inl (Panic ArithmeticUnderflow))"

definition checked_mul :: "uint256 \<Rightarrow> uint256 \<Rightarrow> sol_error + uint256" where
  "checked_mul a b = (if unat a * unat b < 2 ^ 256 then Inr (a * b) else Inl (Panic ArithmeticOverflow))"

definition checked_div :: "uint256 \<Rightarrow> uint256 \<Rightarrow> sol_error + uint256" where
  "checked_div a b = (if b = 0 then Inl (Panic DivisionByZero) else Inr (a div b))"

definition sol_bind :: "sol_error + 'a \<Rightarrow> ('a \<Rightarrow> sol_error + 'b) \<Rightarrow> sol_error + 'b" where
  "sol_bind m f = (case m of Inl e \<Rightarrow> Inl e | Inr v \<Rightarrow> f v)"

definition FLASH_LOAN_PREMIUM_BPS :: uint256 where
  "FLASH_LOAN_PREMIUM_BPS = 5"

definition MAX_SLIPPAGE_BPS :: uint256 where
  "MAX_SLIPPAGE_BPS = 1000"

definition MIN_PROFIT_BPS :: uint256 where
  "MIN_PROFIT_BPS = 10"

datatype event =
    LiquidationExecuted address address uint256 address uint256 uint256
  | SwapExecuted address address uint256 uint256 uint256

text \<open>
  The contract's storage, its three immutables, the flags of the inherited guards
  (\<open>ReentrancyGuard\<close>, \<open>Pausable\<close>, \<open>Ownable\<close>) and the events emitted so far.
\<close>

record SimpleLiquidator =
  POOL :: address
  ROUTER :: address
  WETH :: address
  totalProfitGenerated :: uint256
  totalLiquidationsExecuted :: uint256
  lastExecutor :: address
  entered :: bool
  paused :: bool
  owner :: address
  events :: "event list"

text \<open>
  What the flash-loan request of \<open>executeLiquidation\<close> carries to the pool:
  \<open>flashLoanSimple(address(this), debtAsset, debtAmount, params, 0)\<close> with
  \<open>params = abi.encode(targetUser, collateralAsset, debtAsset, maxSlippageBps, deadline)\<close>.
\<close>

record flash_loan_request =
  fl_asset :: address
  fl_amount :: uint256
  fl_targetUser :: address
  fl_collateralAsset :: address
  fl_debtAsset :: address
  fl_maxSlippageBps :: uint256
  fl_deadline :: uint256

text \<open>
  \<open>executeLiquidation\<close> up to its call of the pool: the modifiers in their order, the
  argument checks in theirs, the write of \<open>lastExecutor\<close>, and the request handed to the
  pool. The state returned is the one the pool is called in: \<open>nonReentrant\<close> has set the
  guard's flag. \<open>sender\<close> is \<open>msg.sender\<close> and \<open>now\<close> is \<open>block.timestamp\<close>. The whitelist
  test of the source has an empty body.
\<close>

definition executeLiquidation ::
  "address \<Rightarrow> uint256 \<Rightarrow> SimpleLiquidator \<Rightarrow> address \<Rightarrow> address \<Rightarrow> address \<Rightarrow> uint256 \<Rightarrow> uint256 \<Rightarrow> uint256
     \<Rightarrow> sol_error + (SimpleLiquidator \<times> flash_loan_request)" where
  "executeLiquidation sender now st targetUser collateralAsset debtAsset debtAmount maxSlippageBps deadline =
     (if entered st then Inl ReentrantCall
      else if paused st then Inl EnforcedPause
      else if owner st \<noteq> sender then Inl NotOwner
      else if targetUser = 0 then Inl ZeroAddress
      else if collateralAsset = 0 then Inl ZeroAddress
      else if debtAsset = 0 then Inl ZeroAddress
      else if debtAmount = 0 then Inl ZeroAmount
      else if now > deadline then Inl DeadlineExpired
      else if maxSlippageBps > MAX_SLIPPAGE_BPS then Inl InvalidSlippage
      else Inr (st\<lparr>entered := True, lastExecutor := sender\<rparr>,
                \<lparr>fl_asset = debtAsset, fl_amount = debtAmount, fl_targetUser = targetUser,
                 fl_collateralAsset = collateralAsset, fl_debtAsset = debtAsset,
                 fl_maxSlippageBps = maxSlippageBps, fl_deadline = deadline\<rparr>))"

text \<open>
  The world outside the contract, as \<open>_finalizeLiquidation\<close> sees it: the balance the asset
  token reports for the contract, whether the token lets \<open>safeIncreaseAllowance\<close> and
  \<open>safeApprove\<close> through, and \<open>tx.origin\<close>.
\<close>

record finalize_env =
  fe_balance :: uint256
  fe_increaseAllowance_ok :: bool
  fe_approve_ok :: bool
  fe_origin :: address

definition finalizeLiquidation ::
  "finalize_env \<Rightarrow> SimpleLiquidator \<Rightarrow> address \<Rightarrow> uint256 \<Rightarrow> uint256 \<Rightarrow> address
     \<Rightarrow> sol_error + (bool \<times> SimpleLiquidator)" where
  "finalizeLiquidation env st asset amount premium targetUser =
     (let finalBalance = fe_balance env in
      sol_bind (checked_add amount premium) (\<lambda>totalRepayment.
      if finalBalance < totalRepayment then Inl InsufficientBalance
      else
      sol_bind (checked_sub finalBalance totalRepayment) (\<lambda>profit.
      sol_bind (sol_bind (checked_mul amount MIN_PROFIT_BPS) (\<lambda>x. checked_div x 10000)) (\<lambda>minProfit.
      if profit < minProfit then Inl InsufficientProfit
      else if \<not> fe_increaseAllowance_ok env then Inl ExternalCallReverted
      else
      sol_bind (checked_add (totalLiquidationsExecuted st) 1) (\<lambda>executed.
      sol_bind (checked_add (totalProfitGenerated st) profit) (\<lambda>generated.
      let executor = (if lastExecutor st \<noteq> 0 then lastExecutor st else fe_origin env);
          gasUsed = 0;
          st' = st\<lparr>totalLiquidationsExecuted := executed,
                    totalProfitGenerated := generated,
                    events := events st @ [LiquidationExecuted executor targetUser profit asset 0 gasUsed]\<rparr>
      in if \<not> fe_approve_ok env then Inl ExternalCallReverted
         else Inr (True, st')))))))"

definition buildSwapPath :: "SimpleLiquidator \<Rightarrow> address \<Rightarrow> address \<Rightarrow> address list" where
  "buildSwapPath st tokenIn tokenOut =
     (if tokenIn = WETH st \<or> tokenOut = WETH st then [tokenIn, tokenOut]
      else [tokenIn, WETH st, tokenOut])"

text \<open>Line 260 of the contract, the local \<open>minAmountOut\<close> of \<open>_executeSwap\<close>.\<close>

definition minAmountOut :: "uint256 \<Rightarrow> uint256 \<Rightarrow> sol_error + uint256" where
  "minAmountOut expectedOut maxSlippageBps =
     sol_bind (checked_sub 10000 maxSlippageBps) (\<lambda>keep.
     sol_bind (checked_mul expectedOut keep) (\<lambda>scaled.
     checked_div scaled 10000))"

text \<open>
  The router and the two tokens, as \<open>_executeSwap\<close> sees them. \<open>se_getAmountsOut\<close> is the
  quote (\<open>None\<close> when the router reverts); \<open>se_swap amountIn amountOutMin path deadline\<close> is
  the balance of the output token the contract holds after the router's swap (\<open>None\<close> when
  the swap reverts); \<open>se_balanceBefore\<close> is that balance before it.
\<close>

record swap_env =
  se_timestamp :: uint256
  se_getAmountsOut :: "uint256 \<Rightarrow> address list \<Rightarrow> uint256 list option"
  se_balanceBefore :: uint256
  se_increaseAllowance_ok :: bool
  se_swap :: "uint256 \<Rightarrow> uint256 \<Rightarrow> address list \<Rightarrow> uint256 \<Rightarrow> uint256 option"
  se_approve_ok :: bool

text \<open>
  A revert inside the success block of a \<open>try\<close> is not caught by its \<open>catch\<close> clauses: the
  slippage check and the arithmetic of the event's \<open>actualSlippageBps\<close> revert the call.
\<close>

definition executeSwap ::
  "swap_env \<Rightarrow> SimpleLiquidator \<Rightarrow> address \<Rightarrow> address \<Rightarrow> uint256 \<Rightarrow> uint256 \<Rightarrow> uint256
     \<Rightarrow> sol_error + SimpleLiquidator" where
  "executeSwap env st tokenIn tokenOut amountIn maxSlippageBps deadline =
     (if deadline < se_timestamp env then Inl DeadlineExpired
      else
      let path = buildSwapPath st tokenIn tokenOut in
      case se_getAmountsOut env amountIn path of
        None \<Rightarrow> Inl GetAmountsOutFailed
      | Some expectedAmounts \<Rightarrow>
          if length expectedAmounts < 2 then Inl InvalidPath
          else
          let expectedOut = expectedAmounts ! (length expectedAmounts - 1) in
          if expectedOut = 0 then Inl NoOutput
          else
          sol_bind (minAmountOut expectedOut maxSlippageBps) (\<lambda>minOut.
          if \<not> se_increaseAllowance_ok env then Inl ExternalCallReverted
          else
          case se_swap env amountIn minOut path deadline of
            None \<Rightarrow> Inl SlippageExceeded
          | Some balanceAfter \<Rightarrow>
              sol_bind (checked_sub balanceAfter (se_balanceBefore env)) (\<lambda>amountOut.
              if amountOut < minOut then Inl SlippageExceeded
              else
              sol_bind (checked_sub expectedOut amountOut) (\<lambda>shortfall.
              sol_bind (checked_mul shortfall 10000) (\<lambda>scaled.
              sol_bind (checked_div scaled expectedOut) (\<lambda>actualSlippageBps.
              if \<not> se_approve_ok env then Inl ExternalCallReverted
              else Inr (st\<lparr>events := events st @
                          [SwapExecuted tokenIn tokenOut amountIn amountOut actualSlippageBps]\<rparr>)))))))"

text \<open>
  The five values \<open>executeLiquidation\<close> encodes into \<open>params\<close> and \<open>_processLiquidation\<close>
  decodes from it.
\<close>

record liquidation_params =
  lp_targetUser :: address
  lp_collateralAsset :: address
  lp_debtAsset :: address
  lp_maxSlippageBps :: uint256
  lp_deadline :: uint256

definition params_of :: "flash_loan_request \<Rightarrow> liquidation_params" where
  "params_of request =
     \<lparr>lp_targetUser = fl_targetUser request, lp_collateralAsset = fl_collateralAsset request,
      lp_debtAsset = fl_debtAsset request, lp_maxSlippageBps = fl_maxSlippageBps request,
      lp_deadline = fl_deadline request\<rparr>"

text \<open>
  The world outside the contract, as the callback sees it: the contract's own address,
  \<open>block.timestamp\<close>, the contract's balance of the collateral token before and after the
  pool's \<open>liquidationCall\<close>, whether the debt token lets \<open>safeIncreaseAllowance\<close> through,
  whether \<open>liquidationCall\<close> returns, and the worlds of the swap and of the final check.
\<close>

record callback_env =
  ce_this :: address
  ce_timestamp :: uint256
  ce_collateralBefore :: uint256
  ce_increaseAllowance_ok :: bool
  ce_liquidationCall_ok :: bool
  ce_collateralAfter :: uint256
  ce_swap :: swap_env
  ce_finalize :: finalize_env

definition handleLiquidationSuccess ::
  "callback_env \<Rightarrow> SimpleLiquidator \<Rightarrow> address \<Rightarrow> uint256 \<Rightarrow> uint256 \<Rightarrow> address \<Rightarrow> address
     \<Rightarrow> uint256 \<Rightarrow> uint256 \<Rightarrow> uint256 \<Rightarrow> address \<Rightarrow> sol_error + (bool \<times> SimpleLiquidator)" where
  "handleLiquidationSuccess env st asset amount premium collateralAsset debtAsset collateralBefore
       maxSlippageBps deadline targetUser =
     (let collateralAfter = ce_collateralAfter env in
      sol_bind (checked_sub collateralAfter collateralBefore) (\<lambda>collateralReceived.
      if collateralReceived = 0 then Inl FlashLoanFailed
      else
      sol_bind (if collateralAsset \<noteq> debtAsset \<and> collateralReceived > 0
                then executeSwap (ce_swap env) st collateralAsset debtAsset collateralReceived
                       maxSlippageBps deadline
                else Inr st) (\<lambda>st'.
      finalizeLiquidation (ce_finalize env) st' asset amount premium targetUser)))"

text \<open>
  The \<open>catch\<close> clauses of \<open>_processLiquidation\<close> turn a revert of \<open>liquidationCall\<close> into
  \<open>FlashLoanFailed\<close>; a revert inside the success block passes through.
\<close>

definition processLiquidation ::
  "callback_env \<Rightarrow> SimpleLiquidator \<Rightarrow> address \<Rightarrow> uint256 \<Rightarrow> uint256 \<Rightarrow> liquidation_params
     \<Rightarrow> sol_error + (bool \<times> SimpleLiquidator)" where
  "processLiquidation env st asset amount premium params =
     (if ce_timestamp env > lp_deadline params then Inl DeadlineExpired
      else
      let collateralBefore = ce_collateralBefore env in
      if \<not> ce_increaseAllowance_ok env then Inl ExternalCallReverted
      else if \<not> ce_liquidationCall_ok env then Inl FlashLoanFailed
      else handleLiquidationSuccess env st asset amount premium (lp_collateralAsset params)
             (lp_debtAsset params) collateralBefore (lp_maxSlippageBps params) (lp_deadline params)
             (lp_targetUser params))"

text \<open>
  \<open>executeOperation\<close>, the callback the pool invokes while \<open>flashLoanSimple\<close> runs, that is,
  inside \<open>executeLiquidation\<close>. It is \<open>external nonReentrant\<close>: the guard's flag is tested
  first, set for the body and cleared on return. \<open>sender\<close> is \<open>msg.sender\<close>. The two reads of
  \<open>gasleft()\<close> feed a local that is not used.
\<close>

definition executeOperation ::
  "callback_env \<Rightarrow> address \<Rightarrow> SimpleLiquidator \<Rightarrow> address \<Rightarrow> uint256 \<Rightarrow> uint256 \<Rightarrow> address
     \<Rightarrow> liquidation_params \<Rightarrow> sol_error + (bool \<times> SimpleLiquidator)" where
  "executeOperation env sender st asset amount premium initiator params =
     (if entered st then Inl ReentrantCall
      else if sender \<noteq> POOL st then Inl UnauthorizedCaller
      else if initiator \<noteq> ce_this env then Inl InvalidInitiator
      else
      case processLiquidation env (st\<lparr>entered := True\<rparr>) asset amount premium params of
        Inl e \<Rightarrow> Inl e
      | Inr (success, st') \<Rightarrow> Inr (success, st'\<lparr>entered := False\<rparr>))"

text \<open>
  The premium the pool charges on a loan of \<open>amount\<close>: \<open>(amount * 5) / 10000\<close>, as in
  \<open>MockAavePool.flashLoanSimple\<close> and in the contract's own \<open>estimateFlashLoanCost\<close>.
\<close>

definition estimateFlashLoanCost :: "uint256 \<Rightarrow> sol_error + uint256" where
  "estimateFlashLoanCost amount =
     sol_bind (checked_mul amount FLASH_LOAN_PREMIUM_BPS) (\<lambda>x. checked_div x 10000)"

section \<open>Health factors and opportunities (aave-service.ts)\<close>

text \<open>
  A JavaScript number is modelled as a real number or \<open>NaN\<close>: arithmetic is exact (the
  rounding and the overflow to infinity of IEEE doubles are not modelled), \<open>NaN\<close> is
  absorbing, and every comparison with \<open>NaN\<close> is false. No division in the modelled code has
  a zero divisor (each divides by a positive constant, by a power of ten, or by a total that
  was tested to be positive), so the quotient by zero, an infinity or \<open>NaN\<close> in JavaScript,
  is never taken; \<open>num_div\<close> gives \<open>NaN\<close> there.
\<close>

datatype number = NaN | Num real

fun num_add :: "number \<Rightarrow> number \<Rightarrow> number" where
  "num_add (Num x) (Num y) = Num (x + y)"
| "num_add _ _ = NaN"

fun num_sub :: "number \<Rightarrow> number \<Rightarrow> number" where
  "num_sub (Num x) (Num y) = Num (x - y)"
| "num_sub _ _ = NaN"

fun num_mul :: "number \<Rightarrow> number \<Rightarrow> number" where
  "num_mul (Num x) (Num y) = Num (x * y)"
| "num_mul _ _ = NaN"

fun num_div :: "number \<Rightarrow> number \<Rightarrow> number" where
  "num_div (Num x) (Num y) = (if y = 0 then NaN else Num (x / y))"
| "num_div _ _ = NaN"

fun num_gt :: "number \<Rightarrow> number \<Rightarrow> bool" where
  "num_gt (Num x) (Num y) = (x > y)"
| "num_gt _ _ = False"

fun num_ge :: "number \<Rightarrow> number \<Rightarrow> bool" where
  "num_ge (Num x) (Num y) = (x \<ge> y)"
| "num_ge _ _ = False"

fun num_lt :: "number \<Rightarrow> number \<Rightarrow> bool" where
  "num_lt (Num x) (Num y) = (x < y)"
| "num_lt _ _ = False"

fun num_le :: "number \<Rightarrow> number \<Rightarrow> bool" where
  "num_le (Num x) (Num y) = (x \<le> y)"
| "num_le _ _ = False"

text \<open>\<open>===\<close> on numbers: \<open>NaN\<close> equals nothing.\<close>

fun num_eq :: "number \<Rightarrow> number \<Rightarrow> bool" where
  "num_eq (Num x) (Num y) = (x = y)"
| "num_eq _ _ = False"

fun num_max :: "number \<Rightarrow> number \<Rightarrow> number" where
  "num_max (Num x) (Num y) = Num (max x y)"
| "num_max _ _ = NaN"

fun num_min :: "number \<Rightarrow> number \<Rightarrow> number" where
  "num_min (Num x) (Num y) = Num (min x y)"
| "num_min _ _ = NaN"

text \<open>\<open>Math.pow(10, decimals)\<close> for a token's number of decimals.\<close>

definition pow10 :: "nat \<Rightarrow> number" where
  "pow10 d = Num (10 ^ d)"

text \<open>
  A user reserve as the loops read it: every string field already passed through the
  \<open>parseFloat\<close> or \<open>parseInt\<close> the code applies to it (a string that does not parse, such as
  an empty or missing price, reads as \<open>NaN\<close>); \<open>liquidationThreshold\<close> is the parsed basis
  points. The fields the two loops never read are left out.
\<close>

record AaveUserReserve =
  symbol :: string
  decimals :: nat
  liquidationThreshold :: number
  priceInEth :: number
  currentATokenBalance :: number
  currentVariableDebt :: number
  currentStableDebt :: number
  usageAsCollateralEnabledOnUser :: bool

record AaveUser =
  user_id :: string
  user_reserves :: "AaveUserReserve list"

record HealthFactorData =
  userAddress :: string
  healthFactor :: number
  totalCollateralETH :: number
  totalDebtETH :: number
  availableBorrowsETH :: number
  currentLiquidationThreshold :: number
  ltv :: number
  reserves :: "AaveUserReserve list"

text \<open>The two tests of the loop body, which \<open>convertToLiquidationPosition\<close> repeats.\<close>

definition counts_as_collateral :: "AaveUserReserve \<Rightarrow> bool" where
  "counts_as_collateral r = (usageAsCollateralEnabledOnUser r \<and> num_gt (currentATokenBalance r) (Num 0))"

definition totalDebt :: "AaveUserReserve \<Rightarrow> number" where
  "totalDebt r = num_add (currentVariableDebt r) (currentStableDebt r)"

definition collateralValueETH :: "AaveUserReserve \<Rightarrow> number" where
  "collateralValueETH r = num_mul (num_div (currentATokenBalance r) (pow10 (decimals r))) (priceInEth r)"

definition debtValueETH :: "AaveUserReserve \<Rightarrow> number" where
  "debtValueETH r = num_mul (num_div (totalDebt r) (pow10 (decimals r))) (priceInEth r)"

text \<open>
  One iteration of the loop of \<open>calculateHealthFactor\<close> on its three running totals
  \<open>(totalCollateralETH, totalDebtETH, totalCollateralWithThreshold)\<close>.
\<close>

definition reserve_step :: "AaveUserReserve \<Rightarrow> number \<times> number \<times> number \<Rightarrow> number \<times> number \<times> number" where
  "reserve_step r acc =
     (case acc of (collateral, debt, weighted) \<Rightarrow>
        let threshold = num_div (liquidationThreshold r) (Num 10000);
            collateral' = (if counts_as_collateral r then num_add collateral (collateralValueETH r)
                           else collateral);
            weighted' = (if counts_as_collateral r
                         then num_add weighted (num_mul (collateralValueETH r) threshold)
                         else weighted);
            debt' = (if num_gt (totalDebt r) (Num 0) then num_add debt (debtValueETH r) else debt)
        in (collateral', debt', weighted'))"

definition hf_totals :: "AaveUserReserve list \<Rightarrow> number \<times> number \<times> number" where
  "hf_totals rs = fold reserve_step rs (Num 0, Num 0, Num 0)"

definition totalCollateralWithThreshold :: "AaveUser \<Rightarrow> number" where
  "totalCollateralWithThreshold u = snd (snd (hf_totals (user_reserves u)))"

definition calculateHealthFactor :: "AaveUser \<Rightarrow> HealthFactorData" where
  "calculateHealthFactor u =
     (case hf_totals (user_reserves u) of (collateral, debt, weighted) \<Rightarrow>
        \<lparr>userAddress = user_id u,
         healthFactor = (if num_gt debt (Num 0) then num_div weighted debt else Num 999),
         totalCollateralETH = collateral,
         totalDebtETH = debt,
         availableBorrowsETH = num_max (Num 0) (num_sub weighted debt),
         currentLiquidationThreshold = (if num_gt collateral (Num 0) then num_div weighted collateral else Num 0),
         ltv = (if num_gt collateral (Num 0) then num_div debt collateral else Num 0),
         reserves = user_reserves u\<rparr>)"

text \<open>\<open>isLiquidatable\<close> of the health-factor calculator: \<open>healthFactorNum < 1.0\<close>.\<close>

definition isLiquidatable :: "number \<Rightarrow> bool" where
  "isLiquidatable hf = num_lt hf (Num 1)"

datatype position_status = monitoring | in_range | executed

text \<open>
  The position handed to the storage layer. The two amounts are the numbers the code
  formats with \<open>toFixed(6)\<close>; the two dates are clock readings and are left out.
\<close>

record LiquidationPosition =
  pos_id :: string
  pos_userAddress :: string
  pos_healthFactor :: number
  pos_collateralAsset :: string
  pos_collateralAmount :: number
  pos_debtAsset :: string
  pos_debtAmount :: number
  pos_estimatedProfit :: number
  pos_status :: position_status

record largest =
  lg_symbol :: string
  lg_amount :: number
  lg_valueETH :: number

definition largest_init :: largest where
  "largest_init = \<lparr>lg_symbol = [], lg_amount = Num 0, lg_valueETH = Num 0\<rparr>"

definition largest_step :: "AaveUserReserve \<Rightarrow> largest \<times> largest \<Rightarrow> largest \<times> largest" where
  "largest_step r acc =
     (case acc of (largestCollateral, largestDebt) \<Rightarrow>
        (if counts_as_collateral r \<and> num_gt (collateralValueETH r) (lg_valueETH largestCollateral)
         then \<lparr>lg_symbol = symbol r,
               lg_amount = num_div (currentATokenBalance r) (pow10 (decimals r)),
               lg_valueETH = collateralValueETH r\<rparr>
         else largestCollateral,
         if num_gt (totalDebt r) (Num 0) \<and> num_gt (debtValueETH r) (lg_valueETH largestDebt)
         then \<lparr>lg_symbol = symbol r,
               lg_amount = num_div (totalDebt r) (pow10 (decimals r)),
               lg_valueETH = debtValueETH r\<rparr>
         else largestDebt))"

text \<open>Lines 297 to 300: the status of a position that is reported.\<close>

definition status_of :: "number \<Rightarrow> number \<Rightarrow> number \<Rightarrow> position_status" where
  "status_of hf executionMin executionMax =
     (if num_ge hf executionMin \<and> num_le hf executionMax then in_range else monitoring)"

text \<open>\<open>ethPrice\<close> is the service's field (3200 until the price feed updates it).\<close>

definition convertToLiquidationPosition ::
  "number \<Rightarrow> HealthFactorData \<Rightarrow> number \<Rightarrow> number \<Rightarrow> LiquidationPosition option" where
  "convertToLiquidationPosition ethPrice healthData executionMin executionMax =
     (case fold largest_step (reserves healthData) (largest_init, largest_init) of
        (largestCollateral, largestDebt) \<Rightarrow>
          if num_eq (lg_valueETH largestCollateral) (Num 0) \<or> num_eq (lg_valueETH largestDebt) (Num 0)
          then None
          else
            let liquidationBonus = Num (5 / 100);
                estimatedProfitETH =
                  num_mul (num_min (num_mul (lg_valueETH largestDebt) (Num (1 / 2)))
                                   (lg_valueETH largestCollateral)) liquidationBonus;
                estimatedProfitUSD = num_mul estimatedProfitETH ethPrice
            in Some \<lparr>pos_id = [],
                     pos_userAddress = userAddress healthData,
                     pos_healthFactor = healthFactor healthData,
                     pos_collateralAsset = lg_symbol largestCollateral,
                     pos_collateralAmount = lg_amount largestCollateral,
                     pos_debtAsset = lg_symbol largestDebt,
                     pos_debtAmount = lg_amount largestDebt,
                     pos_estimatedProfit = estimatedProfitUSD,
                     pos_status = status_of (healthFactor healthData) executionMin executionMax\<rparr>)"

text \<open>Line 227: the test a user's health factor passes to be reported at all.\<close>

definition in_monitoring_range :: "number \<Rightarrow> number \<Rightarrow> number \<Rightarrow> bool" where
  "in_monitoring_range hf monitoringMin monitoringMax = (num_ge hf monitoringMin \<and> num_le hf monitoringMax)"

text \<open>
  What \<open>getLiquidationOpportunities\<close> does with a health factor, in the words of the
  classifier: a user outside the monitoring range is skipped (\<open>Safe\<close>); a user inside it is
  reported with status \<open>in_range\<close> (\<open>InExecutionRange\<close>) or \<open>monitoring\<close> (\<open>Monitoring\<close>).
\<close>

datatype classification = Safe | Monitoring | InExecutionRange

definition classify :: "number \<Rightarrow> number \<Rightarrow> number \<Rightarrow> number \<Rightarrow> number \<Rightarrow> classification" where
  "classify hf monitoringMin monitoringMax executionMin executionMax =
     (if in_monitoring_range hf monitoringMin monitoringMax
      then (case status_of hf executionMin executionMax of
              in_range \<Rightarrow> InExecutionRange
            | _ \<Rightarrow> Monitoring)
      else Safe)"

text \<open>
  The inner \<open>for\<close> loop over one batch of users, on the pair \<open>(processedUsers,
  liquidationPositions)\<close>; it breaks once \<open>maxUsers\<close> users have been processed.
\<close>

fun process_users ::
  "number \<Rightarrow> number \<Rightarrow> number \<Rightarrow> number \<Rightarrow> number \<Rightarrow> nat \<Rightarrow> AaveUser list
     \<Rightarrow> nat \<times> LiquidationPosition list \<Rightarrow> nat \<times> LiquidationPosition list" where
  "process_users ethPrice mMin mMax eMin eMax maxUsers [] acc = acc"
| "process_users ethPrice mMin mMax eMin eMax maxUsers (u # us) (processedUsers, positions) =
     (if processedUsers \<ge> maxUsers then (processedUsers, positions)
      else
        let healthData = calculateHealthFactor u;
            positions' =
              (if in_monitoring_range (healthFactor healthData) mMin mMax
               then (case convertToLiquidationPosition ethPrice healthData eMin eMax of
                       Some position \<Rightarrow> positions @ [position]
                     | None \<Rightarrow> positions)
               else positions)
        in process_users ethPrice mMin mMax eMin eMax maxUsers us (processedUsers + 1, positions'))"

text \<open>
  \<open>userMap.set(user.id, user)\<close> on a \<open>Map\<close> kept in insertion order: a known key keeps its
  place and takes the new value, a new key goes last.
\<close>

fun map_set :: "AaveUser \<Rightarrow> (string \<times> AaveUser) list \<Rightarrow> (string \<times> AaveUser) list" where
  "map_set u [] = [(user_id u, u)]"
| "map_set u ((k, v) # m) = (if k = user_id u then (k, u) # m else (k, v) # map_set u m)"

definition dedupe :: "AaveUser list \<Rightarrow> AaveUser list" where
  "dedupe us = map snd (fold map_set us [])"

text \<open>
  The subgraph: \<open>request\<close> with one of the two queries, \<open>first\<close> and \<open>skip\<close>. \<open>None\<close> is a
  request that throws; a response without \<open>users\<close> reads as the empty list.
\<close>

datatype query = UsersWithDebt | UsersWithStableDebt

definition batchSize :: nat where
  "batchSize = 50"

text \<open>
  The \<open>while\<close> loop of \<open>getLiquidationOpportunities\<close> on \<open>(skip, processedUsers,
  liquidationPositions)\<close>: \<open>None\<close> when a request throws, otherwise the positions collected
  when the loop ends. It ends for every subgraph: a batch that is not empty advances
  \<open>processedUsers\<close> towards \<open>maxUsers\<close>.
\<close>

function scan_loop ::
  "(query \<Rightarrow> nat \<Rightarrow> nat \<Rightarrow> AaveUser list option) \<Rightarrow> number \<Rightarrow> number \<Rightarrow> number \<Rightarrow> number \<Rightarrow> number \<Rightarrow> nat
     \<Rightarrow> nat \<Rightarrow> nat \<Rightarrow> LiquidationPosition list \<Rightarrow> LiquidationPosition list option" where
  "scan_loop request ethPrice mMin mMax eMin eMax maxUsers skip processedUsers positions =
     (if processedUsers < maxUsers then
        (case request UsersWithDebt (min batchSize (maxUsers - processedUsers)) skip of
           None \<Rightarrow> None
         | Some variableDebtUsers \<Rightarrow>
             (case request UsersWithStableDebt (min batchSize (maxUsers - processedUsers)) skip of
                None \<Rightarrow> None
              | Some stableDebtUsers \<Rightarrow>
                  let allUsers = dedupe (variableDebtUsers @ stableDebtUsers) in
                  if allUsers = [] then Some positions
                  else
                    let batch = process_users ethPrice mMin mMax eMin eMax maxUsers allUsers (processedUsers, positions)
                    in scan_loop request ethPrice mMin mMax eMin eMax maxUsers (skip + batchSize)
                         (fst batch) (snd batch)))
      else Some positions)"
  by pat_completeness auto
termination
proof (relation "measure (\<lambda>(request, ethPrice, mMin, mMax, eMin, eMax, maxUsers, skip, processedUsers, positions).
        maxUsers - processedUsers)", goal_cases)
  case 1
  show ?case by simp
next
  case (2 request ethPrice mMin mMax eMin eMax maxUsers skip processedUsers positions
          variableDebtUsers stableDebtUsers allUsers batch)
  have count: "fst (process_users ethPrice mMin mMax eMin eMax maxUsers us (n, ps))
                 = min (max n maxUsers) (n + length us)" for us n ps
    by (induction us arbitrary: n ps) (auto simp: Let_def)
  from 2 have "0 < length allUsers" and "processedUsers < maxUsers" by simp_all
  then have "processedUsers < fst batch"
    using count[of allUsers processedUsers positions] 2 by simp
  then show ?case using \<open>processedUsers < maxUsers\<close>
    by (simp add: case_prod_unfold diff_less_mono2)
qed

declare scan_loop.simps [simp del]

text \<open>
  \<open>liquidationPositions.sort((a, b) => a.healthFactor - b.healthFactor)\<close>. The sort of an
  array is stable; it is modelled as the stable insertion sort under the comparator, where
  an element goes behind those for which the comparator is positive (a \<open>NaN\<close> result counts
  as zero).
\<close>

definition compare_health :: "LiquidationPosition \<Rightarrow> LiquidationPosition \<Rightarrow> number" where
  "compare_health a b = num_sub (pos_healthFactor a) (pos_healthFactor b)"

fun insert_sorted :: "LiquidationPosition \<Rightarrow> LiquidationPosition list \<Rightarrow> LiquidationPosition list" where
  "insert_sorted x [] = [x]"
| "insert_sorted x (y # ys) =
     (if num_gt (compare_health x y) (Num 0) then y # insert_sorted x ys else x # y # ys)"

definition array_sort :: "LiquidationPosition list \<Rightarrow> LiquidationPosition list" where
  "array_sort ps = foldr insert_sorted ps []"

text \<open>The \<open>catch\<close> of the function turns a failed request into the empty list.\<close>

definition getLiquidationOpportunities ::
  "(query \<Rightarrow> nat \<Rightarrow> nat \<Rightarrow> AaveUser list option) \<Rightarrow> number \<Rightarrow> number \<Rightarrow> number \<Rightarrow> number \<Rightarrow> number \<Rightarrow> nat
     \<Rightarrow> LiquidationPosition list" where
  "getLiquidationOpportunities request ethPrice monitoringMin monitoringMax executionMin executionMax maxUsers =
     (case scan_loop request ethPrice monitoringMin monitoringMax executionMin executionMax maxUsers 0 0 [] of
        None \<Rightarrow> []
      | Some positions \<Rightarrow> array_sort positions)"

text \<open>Ascending order of health factor, the order the returned list is judged by.\<close>

definition hf_le :: "LiquidationPosition \<Rightarrow> LiquidationPosition \<Rightarrow> bool" where
  "hf_le a b = num_le (pos_healthFactor a) (pos_healthFactor b)"

section \<open>The liquidation threshold in double arithmetic (aave-service.ts)\<close>

text \<open>
  Whether the current liquidation threshold stays inside \<open>[0, 1]\<close> depends on the arithmetic
  itself, so the loop of \<open>calculateHealthFactor\<close> is given a second time, in the arithmetic
  of IEEE 754 double precision that JavaScript numbers have: every
  operation returns the double nearest to the exact result, ties going to the even
  significand, and a result of magnitude \<open>2^1024\<close> or more is an infinity.

  \<open>p2 k\<close> is \<open>2^k\<close> for an integer \<open>k\<close>. The binade of \<open>x\<close> is the exponent \<open>e\<close> with
  \<open>2^e \<le> |x| < 2^(e+1)\<close>, and \<open>-1022\<close> for the subnormal numbers below \<open>2^(-1022)\<close>; doubles
  of that binade are the integer multiples of \<open>ulp x = 2^(e - 52)\<close>.
\<close>

definition p2 :: "int \<Rightarrow> real" where
  "p2 k = 2 powr of_int k"

definition binade :: "real \<Rightarrow> int" where
  "binade x = max (- 1022) \<lfloor>log 2 \<bar>x\<bar>\<rfloor>"

definition ulp :: "real \<Rightarrow> real" where
  "ulp x = p2 (binade x - 52)"

text \<open>The nearest integer, a tie going to the even one.\<close>

definition round_half_even :: "real \<Rightarrow> int" where
  "round_half_even x =
     (let f = \<lfloor>x\<rfloor> in
      if x - of_int f < 1 / 2 then f
      else if 1 / 2 < x - of_int f then f + 1
      else if even f then f else f + 1)"

text \<open>The multiple of \<open>ulp x\<close> nearest to \<open>x\<close>.\<close>

definition rounded :: "real \<Rightarrow> real" where
  "rounded x = of_int (round_half_even (x / ulp x)) * ulp x"

text \<open>
  A double is \<open>NaN\<close>, an infinity or a finite value. The two zeros are not told apart (no
  comparison does; a quotient by zero, which the loop never takes, treats the zero as
  positive). \<open>to_double\<close> rounds a real result; on infinities and \<open>NaN\<close> the operations
  follow IEEE 754.
\<close>

datatype double = NotANumber | PlusInfinity | MinusInfinity | Finite real

definition to_double :: "real \<Rightarrow> double" where
  "to_double x =
     (let y = rounded x in
      if 2 ^ 1024 \<le> y then PlusInfinity
      else if y \<le> - (2 ^ 1024) then MinusInfinity
      else Finite y)"

fun double_add :: "double \<Rightarrow> double \<Rightarrow> double" where
  "double_add (Finite x) (Finite y) = to_double (x + y)"
| "double_add NotANumber _ = NotANumber"
| "double_add _ NotANumber = NotANumber"
| "double_add PlusInfinity MinusInfinity = NotANumber"
| "double_add MinusInfinity PlusInfinity = NotANumber"
| "double_add PlusInfinity _ = PlusInfinity"
| "double_add MinusInfinity _ = MinusInfinity"
| "double_add (Finite x) PlusInfinity = PlusInfinity"
| "double_add (Finite x) MinusInfinity = MinusInfinity"

fun double_mul :: "double \<Rightarrow> double \<Rightarrow> double" where
  "double_mul (Finite x) (Finite y) = to_double (x * y)"
| "double_mul NotANumber _ = NotANumber"
| "double_mul _ NotANumber = NotANumber"
| "double_mul PlusInfinity (Finite y) =
     (if y = 0 then NotANumber else if 0 < y then PlusInfinity else MinusInfinity)"
| "double_mul MinusInfinity (Finite y) =
     (if y = 0 then NotANumber else if 0 < y then MinusInfinity else PlusInfinity)"
| "double_mul (Finite x) PlusInfinity =
     (if x = 0 then NotANumber else if 0 < x then PlusInfinity else MinusInfinity)"
| "double_mul (Finite x) MinusInfinity =
     (if x = 0 then NotANumber else if 0 < x then MinusInfinity else PlusInfinity)"
| "double_mul PlusInfinity PlusInfinity = PlusInfinity"
| "double_mul PlusInfinity MinusInfinity = MinusInfinity"
| "double_mul MinusInfinity PlusInfinity = MinusInfinity"
| "double_mul MinusInfinity MinusInfinity = PlusInfinity"

fun double_div :: "double \<Rightarrow> double \<Rightarrow> double" where
  "double_div (Finite x) (Finite y) =
     (if y = 0 then (if x = 0 then NotANumber else if 0 < x then PlusInfinity else MinusInfinity)
      else to_double (x / y))"
| "double_div NotANumber _ = NotANumber"
| "double_div _ NotANumber = NotANumber"
| "double_div (Finite x) PlusInfinity = Finite 0"
| "double_div (Finite x) MinusInfinity = Finite 0"
| "double_div PlusInfinity (Finite y) = (if 0 \<le> y then PlusInfinity else MinusInfinity)"
| "double_div MinusInfinity (Finite y) = (if 0 \<le> y then MinusInfinity else PlusInfinity)"
| "double_div _ _ = NotANumber"

fun double_gt :: "double \<Rightarrow> double \<Rightarrow> bool" where
  "double_gt (Finite x) (Finite y) = (y < x)"
| "double_gt NotANumber _ = False"
| "double_gt _ NotANumber = False"
| "double_gt PlusInfinity PlusInfinity = False"
| "double_gt PlusInfinity _ = True"
| "double_gt MinusInfinity _ = False"
| "double_gt (Finite x) PlusInfinity = False"
| "double_gt (Finite x) MinusInfinity = True"

text \<open>
  The double a parsed field holds: \<open>parseFloat\<close> and \<open>parseInt\<close> return the double nearest
  to the decimal they read, and \<open>NaN\<close> for a string that does not parse.
  \<open>Math.pow(10, decimals)\<close> is the double nearest to that power of ten (the power itself up
  to \<open>10^22\<close>).
\<close>

fun as_double :: "number \<Rightarrow> double" where
  "as_double NaN = NotANumber"
| "as_double (Num x) = to_double x"

definition pow10_double :: "nat \<Rightarrow> double" where
  "pow10_double d = to_double (10 ^ d)"

text \<open>
  The loop of \<open>calculateHealthFactor\<close> and its \<open>currentLiquidationThreshold\<close>, as above, with
  every operation in double arithmetic.
\<close>

definition counts_as_collateral_double :: "AaveUserReserve \<Rightarrow> bool" where
  "counts_as_collateral_double r =
     (usageAsCollateralEnabledOnUser r \<and> double_gt (as_double (currentATokenBalance r)) (Finite 0))"

definition totalDebt_double :: "AaveUserReserve \<Rightarrow> double" where
  "totalDebt_double r =
     double_add (as_double (currentVariableDebt r)) (as_double (currentStableDebt r))"

definition collateralValueETH_double :: "AaveUserReserve \<Rightarrow> double" where
  "collateralValueETH_double r =
     double_mul (double_div (as_double (currentATokenBalance r)) (pow10_double (decimals r)))
       (as_double (priceInEth r))"

definition debtValueETH_double :: "AaveUserReserve \<Rightarrow> double" where
  "debtValueETH_double r =
     double_mul (double_div (totalDebt_double r) (pow10_double (decimals r))) (as_double (priceInEth r))"

definition liquidationThreshold_double :: "AaveUserReserve \<Rightarrow> double" where
  "liquidationThreshold_double r = double_div (as_double (liquidationThreshold r)) (Finite 10000)"

definition reserve_step_double ::
  "AaveUserReserve \<Rightarrow> double \<times> double \<times> double \<Rightarrow> double \<times> double \<times> double" where
  "reserve_step_double r acc =
     (case acc of (collateral, debt, weighted) \<Rightarrow>
        let collateral' = (if counts_as_collateral_double r
                           then double_add collateral (collateralValueETH_double r)
                           else collateral);
            weighted' = (if counts_as_collateral_double r
                         then double_add weighted
                                (double_mul (collateralValueETH_double r) (liquidationThreshold_double r))
                         else weighted);
            debt' = (if double_gt (totalDebt_double r) (Finite 0)
                     then double_add debt (debtValueETH_double r) else debt)
        in (collateral', debt', weighted'))"

definition hf_totals_double :: "AaveUserReserve list \<Rightarrow> double \<times> double \<times> double" where
  "hf_totals_double rs = fold reserve_step_double rs (Finite 0, Finite 0, Finite 0)"

definition totalCollateralETH_double :: "AaveUser \<Rightarrow> double" where
  "totalCollateralETH_double u = fst (hf_totals_double (user_reserves u))"

definition totalCollateralWithThreshold_double :: "AaveUser \<Rightarrow> double" where
  "totalCollateralWithThreshold_double u = snd (snd (hf_totals_double (user_reserves u)))"

definition currentLiquidationThreshold_double :: "AaveUser \<Rightarrow> double" where
  "currentLiquidationThreshold_double u =
     (if double_gt (totalCollateralETH_double u) (Finite 0)
      then double_div (totalCollateralWithThreshold_double u) (totalCollateralETH_double u)
      else Finite 0)"

section \<open>The position store (database models, upsertLiquidationPosition)\<close>

text \<open>
  The table \<open>liquidation_positions\<close> is a list of rows. The generated \<open>id\<close> of a new row is
  its insertion index, and timestamps are clock readings in some unit. The decimal columns
  hold the values written (their rounding to the column scale is not modelled).
\<close>

record position_values =
  pv_collateral_amount :: string
  pv_debt_amount :: string
  pv_health_factor :: real
  pv_liquidation_threshold :: real
  pv_liquidation_bonus :: real
  pv_is_liquidatable :: bool

type_synonym position_key = "nat \<times> string \<times> string \<times> string"

record stored_position =
  db_id :: nat
  db_key :: position_key
  db_values :: position_values
  db_last_updated :: nat
  db_created_at :: nat

text \<open>
  The indexes \<open>schema.sql\<close> gives the table: the one its primary key on \<open>id\<close> creates, which
  is unique, and the two of its \<open>CREATE INDEX\<close> statements, which are not.
\<close>

record index_declaration =
  ix_name :: string
  ix_columns :: "string list"
  ix_unique :: bool

definition liquidation_positions_indexes :: "index_declaration list" where
  "liquidation_positions_indexes =
     [\<lparr>ix_name = ''liquidation_positions_pkey'', ix_columns = [''id''], ix_unique = True\<rparr>,
      \<lparr>ix_name = ''idx_liquidation_positions_chain_health'',
       ix_columns = [''chain_id'', ''health_factor''], ix_unique = False\<rparr>,
      \<lparr>ix_name = ''idx_liquidation_positions_liquidatable'',
       ix_columns = [''is_liquidatable'', ''chain_id''], ix_unique = False\<rparr>]"

text \<open>The conflict target of the statement, \<open>ON CONFLICT (...)\<close>.\<close>

definition conflict_target :: "string list" where
  "conflict_target = [''chain_id'', ''user_address'', ''collateral_asset'', ''debt_asset'']"

text \<open>
  The database takes as arbiter of \<open>ON CONFLICT (columns)\<close> a unique index on exactly those
  columns, in any order. Without one it rejects the statement (there is no unique or
  exclusion constraint matching the \<open>ON CONFLICT\<close> specification) and writes nothing.
\<close>

datatype db_error = NoMatchingConstraint

definition arbiter_index :: "index_declaration list \<Rightarrow> string list \<Rightarrow> bool" where
  "arbiter_index indexes target =
     list_ex (\<lambda>ix. ix_unique ix \<and> set (ix_columns ix) = set target) indexes"

text \<open>
  \<open>INSERT ... ON CONFLICT (key) DO UPDATE SET ... = EXCLUDED. ..., last_updated = NOW()\<close>, on
  a table with the indexes given. The argument of the function is the key and the six
  values: its type leaves out \<open>id\<close>, \<open>created_at\<close> and \<open>last_updated\<close>, so a call carries no
  timestamp of its own; \<open>now\<close> is the database clock at the call. With an arbiter index a
  conflicting row is a row with the same key. A rejected statement makes \<open>pool.query\<close>, and
  with it the function, throw.
\<close>

definition upsertLiquidationPosition ::
  "index_declaration list \<Rightarrow> nat \<Rightarrow> position_key \<Rightarrow> position_values \<Rightarrow> stored_position list
     \<Rightarrow> db_error + stored_position list" where
  "upsertLiquidationPosition indexes now k v table =
     (if \<not> arbiter_index indexes conflict_target then Inl NoMatchingConstraint
      else if list_ex (\<lambda>row. db_key row = k) table
      then Inr (map (\<lambda>row. if db_key row = k then row\<lparr>db_values := v, db_last_updated := now\<rparr> else row) table)
      else Inr (table @ [\<lparr>db_id = length table, db_key = k, db_values = v,
                          db_last_updated = now, db_created_at = now\<rparr>]))"

text \<open>
  A call as it reaches the store: the time at which its values were read from the chain
  (\<open>call_source\<close>, which the function never sees), the database clock when it arrives, and
  the arguments. Calls are applied in their order of arrival; a call that throws leaves the
  table as it was.
\<close>

record upsert_call =
  call_source :: nat
  call_now :: nat
  call_key :: position_key
  call_values :: position_values

definition apply_call :: "index_declaration list \<Rightarrow> upsert_call \<Rightarrow> stored_position list \<Rightarrow> stored_position list" where
  "apply_call indexes c table =
     (case upsertLiquidationPosition indexes (call_now c) (call_key c) (call_values c) table of
        Inl e \<Rightarrow> table
      | Inr table' \<Rightarrow> table')"

definition apply_calls :: "index_declaration list \<Rightarrow> upsert_call list \<Rightarrow> stored_position list \<Rightarrow> stored_position list" where
  "apply_calls indexes cs table = fold (apply_call indexes) cs table"

definition rows_with_key :: "position_key \<Rightarrow> stored_position list \<Rightarrow> stored_position list" where
  "rows_with_key k table = filter (\<lambda>row. db_key row = k) table"

section \<open>Theorems\<close>

subsection \<open>Reconnection backoff\<close>

text \<open>
  C5. A call of \<open>scheduleReconnect\<close> for a chain whose attempt counter is below the maximum
  of 5 is reconnection attempt \<open>n\<close>, one more than the counter: it stores \<open>n\<close> as the new
  counter and sets a timer of \<open>reconnectDelay * 2 ^ (n - 1)\<close> milliseconds (the base delay for
  attempt 1, eight times the base delay for attempt 4). Once the counter has reached the
  maximum, the call sets no timer and leaves the manager as it is.
\<close>

theorem scheduleReconnect_backoff:
  assumes "connections m cid = Some c"
  shows "(1 \<le> n \<and> n \<le> maxReconnectAttempts \<and> reconnectAttempts c = n - 1 \<longrightarrow>
            snd (scheduleReconnect m cid) = Some (reconnectDelay * 2 ^ (n - 1)) \<and>
            map_option reconnectAttempts (connections (fst (scheduleReconnect m cid)) cid) = Some n)
       \<and> (n = 1 \<and> reconnectAttempts c = 0 \<longrightarrow> snd (scheduleReconnect m cid) = Some reconnectDelay)
       \<and> (n = 4 \<and> reconnectAttempts c = 3 \<longrightarrow> snd (scheduleReconnect m cid) = Some (reconnectDelay * 8))
       \<and> (reconnectAttempts c \<ge> maxReconnectAttempts \<longrightarrow> scheduleReconnect m cid = (m, None))"
  using assms by (auto simp: scheduleReconnect_def maxReconnectAttempts_def Let_def)

theorem scheduleReconnect_backoff_witness:
  "snd (scheduleReconnect
     \<lparr>connections = [1 \<mapsto> \<lparr>chainId = 1, chainName = ''Ethereum'', ws = False, isConnected = False,
        reconnectAttempts = 0, lastPing = 0, subscriptions = []\<rparr>],
      reconnectIntervals = Map.empty\<rparr> 1) = Some 5000
   \<and> snd (scheduleReconnect
     \<lparr>connections = [1 \<mapsto> \<lparr>chainId = 1, chainName = ''Ethereum'', ws = False, isConnected = False,
        reconnectAttempts = 3, lastPing = 0, subscriptions = []\<rparr>],
      reconnectIntervals = Map.empty\<rparr> 1) = Some 40000
   \<and> map_option reconnectAttempts (connections (fst (scheduleReconnect
     \<lparr>connections = [1 \<mapsto> \<lparr>chainId = 1, chainName = ''Ethereum'', ws = False, isConnected = False,
        reconnectAttempts = 3, lastPing = 0, subscriptions = []\<rparr>],
      reconnectIntervals = Map.empty\<rparr> 1)) 1) = Some 4
   \<and> scheduleReconnect
     \<lparr>connections = [1 \<mapsto> \<lparr>chainId = 1, chainName = ''Ethereum'', ws = False, isConnected = False,
        reconnectAttempts = 5, lastPing = 0, subscriptions = []\<rparr>],
      reconnectIntervals = Map.empty\<rparr> 1
     = (\<lparr>connections = [1 \<mapsto> \<lparr>chainId = 1, chainName = ''Ethereum'', ws = False, isConnected = False,
        reconnectAttempts = 5, lastPing = 0, subscriptions = []\<rparr>],
      reconnectIntervals = Map.empty\<rparr>, None)"
  using
    scheduleReconnect_backoff [of
     "\<lparr>connections = [1 \<mapsto> \<lparr>chainId = 1, chainName = ''Ethereum'', ws = False, isConnected = False,
        reconnectAttempts = 0, lastPing = 0, subscriptions = []\<rparr>],
      reconnectIntervals = Map.empty\<rparr>" 1
     "\<lparr>chainId = 1, chainName = ''Ethereum'', ws = False, isConnected = False,
        reconnectAttempts = 0, lastPing = 0, subscriptions = []\<rparr>" 1]
    scheduleReconnect_backoff [of
     "\<lparr>connections = [1 \<mapsto> \<lparr>chainId = 1, chainName = ''Ethereum'', ws = False, isConnected = False,
        reconnectAttempts = 3, lastPing = 0, subscriptions = []\<rparr>],
      reconnectIntervals = Map.empty\<rparr>" 1
     "\<lparr>chainId = 1, chainName = ''Ethereum'', ws = False, isConnected = False,
        reconnectAttempts = 3, lastPing = 0, subscriptions = []\<rparr>" 4]
    scheduleReconnect_backoff [of
     "\<lparr>connections = [1 \<mapsto> \<lparr>chainId = 1, chainName = ''Ethereum'', ws = False, isConnected = False,
        reconnectAttempts = 5, lastPing = 0, subscriptions = []\<rparr>],
      reconnectIntervals = Map.empty\<rparr>" 1
     "\<lparr>chainId = 1, chainName = ''Ethereum'', ws = False, isConnected = False,
        reconnectAttempts = 5, lastPing = 0, subscriptions = []\<rparr>" 5]
  by (simp add: maxReconnectAttempts_def reconnectDelay_def)

subsection \<open>Liquidation amount\<close>

text \<open>
  No entry of \<open>CHAIN_CONFIGS\<close> has a property \<open>poolAddress\<close>: the pool's address is under
  \<open>aavePoolAddress\<close>.
\<close>

lemma no_poolAddress: "\<forall>chain \<in> set CHAIN_CONFIGS. property chain ''poolAddress'' = None"
  by (simp add: CHAIN_CONFIGS_def property_def)

lemma getPoolContract_throws:
  assumes "hfc_poolContracts calc chain_id = None"
  shows "\<exists>e. getPoolContract calc chain_id = Inl e"
proof (cases "hfc_providers calc chain_id")
  case None
  then show ?thesis using assms by (simp add: getPoolContract_def)
next
  case (Some provider)
  show ?thesis
  proof (cases "find (\<lambda>c. property c ''chainId'' = Some (JsNumber chain_id)) CHAIN_CONFIGS")
    case None
    then show ?thesis using assms Some by (simp add: getPoolContract_def)
  next
    case (Some chain)
    then have "chain \<in> set CHAIN_CONFIGS" by (auto simp: find_Some_iff)
    then have "property chain ''poolAddress'' = None" using no_poolAddress by blast
    then show ?thesis
      using assms \<open>hfc_providers calc chain_id = Some provider\<close> Some
      by (simp add: getPoolContract_def new_Contract_def)
  qed
qed

lemma analyzeLiquidationOpportunity_no_pool:
  "hfc_poolContracts calc chain_id = None \<Longrightarrow>
     analyzeLiquidationOpportunity calc chain_id gas position = (None, calc)"
  using getPoolContract_throws [of calc chain_id]
  by (auto simp: analyzeLiquidationOpportunity_def)

text \<open>
  C6. On the calculator the constructor builds, \<open>analyzeLiquidationOpportunity\<close> returns
  \<open>null\<close> for every chain and every position and leaves the calculator as it was, so that
  every later call does the same: the lookup of the pool contract throws before any amount
  is computed, and no liquidation amount is selected for any opportunity.
\<close>

theorem analyzeLiquidationOpportunity_returns_null:
  "analyzeLiquidationOpportunity new_HealthFactorCalculator chain_id gas position
     = (None, new_HealthFactorCalculator)"
  by (rule analyzeLiquidationOpportunity_no_pool) (simp add: new_HealthFactorCalculator_def)

theorem analyzeLiquidationOpportunity_returns_null_witness:
  "fst (analyzeLiquidationOpportunity new_HealthFactorCalculator 1 500000
     \<lparr>user_address = ''0xabc'', collateral_asset = ''0xC02aaA39b223FE8D0A0e5C4F27eAD9083C756Cc2'',
      debt_asset = ''0x6B175474E89094C44Da98b954EedeAC495271d0F'',
      collateral_amount = Some (2 * 10 ^ 18), debt_amount = Some (4 * 10 ^ 18),
      liquidation_bonus = Some (5 * 10 ^ 16)\<rparr>) = None"
  using analyzeLiquidationOpportunity_returns_null [of 1 500000
     "\<lparr>user_address = ''0xabc'', collateral_asset = ''0xC02aaA39b223FE8D0A0e5C4F27eAD9083C756Cc2'',
      debt_asset = ''0x6B175474E89094C44Da98b954EedeAC495271d0F'',
      collateral_amount = Some (2 * 10 ^ 18), debt_amount = Some (4 * 10 ^ 18),
      liquidation_bonus = Some (5 * 10 ^ 16)\<rparr>"]
  by simp

subsection \<open>Checked arithmetic\<close>

lemma checked_add_Inr: "unat a + unat b < 2 ^ 256 \<Longrightarrow> checked_add a b = Inr (a + b) \<and> unat (a + b) = unat a + unat b"
  by (simp add: checked_add_def unat_add_lem[THEN iffD1])

lemma checked_mul_Inr: "unat a * unat b < 2 ^ 256 \<Longrightarrow> checked_mul a b = Inr (a * b) \<and> unat (a * b) = unat a * unat b"
  by (simp add: checked_mul_def unat_mult_lem[THEN iffD1])

lemma checked_sub_Inr: "unat b \<le> unat a \<Longrightarrow> checked_sub a b = Inr (a - b) \<and> unat (a - b) = unat a - unat b"
  by (simp add: checked_sub_def unat_sub word_le_nat_alt)

lemma unat_10000: "unat (10000 :: uint256) = 10000" by simp

lemma minAmountOut_char:
  assumes "s \<le> MAX_SLIPPAGE_BPS"
  shows "(unat e * (10000 - unat s) < 2 ^ 256 \<longrightarrow>
            (\<exists>m. minAmountOut e s = Inr m \<and> unat m = unat e * (10000 - unat s) div 10000))
       \<and> (\<not> unat e * (10000 - unat s) < 2 ^ 256 \<longrightarrow> minAmountOut e s = Inl (Panic ArithmeticOverflow))"
proof -
  from assms have s: "unat s \<le> 1000" by (simp add: MAX_SLIPPAGE_BPS_def word_le_nat_alt)
  then have sub: "checked_sub 10000 s = Inr (10000 - s)" "unat (10000 - s) = 10000 - unat s"
    using checked_sub_Inr[of s 10000] by simp_all
  show ?thesis
  proof (cases "unat e * (10000 - unat s) < 2 ^ 256")
    case True
    then have "checked_mul e (10000 - s) = Inr (e * (10000 - s))" "unat (e * (10000 - s)) = unat e * (10000 - unat s)"
      using checked_mul_Inr[of e "10000 - s"] sub by simp_all
    then show ?thesis using True sub
      by (simp add: minAmountOut_def sol_bind_def checked_div_def unat_div)
  next
    case False
    then show ?thesis using sub
      by (simp add: minAmountOut_def sol_bind_def checked_mul_def)
  qed
qed

lemma minAmountOut_not_underflow:
  "s \<le> MAX_SLIPPAGE_BPS \<Longrightarrow> minAmountOut e s \<noteq> Inl (Panic ArithmeticUnderflow)"
  using minAmountOut_char[of s e] by (cases "unat e * (10000 - unat s) < 2 ^ 256") auto

subsection \<open>Repayment and profit check\<close>

text \<open>
  What \<open>_finalizeLiquidation\<close> returns on the values it is given, when \<open>amount + premium\<close>
  fits in 256 bits: the two checks in the order and with the thresholds of the source.
\<close>

lemma finalizeLiquidation_in_range:
  assumes "unat amount + unat premium < 2 ^ 256"
  shows "(unat (fe_balance env) < unat amount + unat premium \<longrightarrow>
            finalizeLiquidation env st asset amount premium targetUser = Inl InsufficientBalance)
       \<and> (unat amount + unat premium \<le> unat (fe_balance env)
            \<and> unat amount * unat MIN_PROFIT_BPS < 2 ^ 256
            \<and> unat (fe_balance env) - (unat amount + unat premium) < unat amount * unat MIN_PROFIT_BPS div 10000 \<longrightarrow>
            finalizeLiquidation env st asset amount premium targetUser = Inl InsufficientProfit)
       \<and> (unat amount + unat premium \<le> unat (fe_balance env)
            \<and> unat amount * unat MIN_PROFIT_BPS < 2 ^ 256
            \<and> unat amount * unat MIN_PROFIT_BPS div 10000 \<le> unat (fe_balance env) - (unat amount + unat premium)
            \<and> fe_increaseAllowance_ok env \<and> fe_approve_ok env
            \<and> unat (totalLiquidationsExecuted st) + 1 < 2 ^ 256
            \<and> unat (totalProfitGenerated st) + (unat (fe_balance env) - (unat amount + unat premium)) < 2 ^ 256 \<longrightarrow>
            finalizeLiquidation env st asset amount premium targetUser =
              Inr (True, st\<lparr>totalLiquidationsExecuted := totalLiquidationsExecuted st + 1,
                             totalProfitGenerated := totalProfitGenerated st + (fe_balance env - (amount + premium)),
                             events := events st @
                               [LiquidationExecuted (if lastExecutor st \<noteq> 0 then lastExecutor st else fe_origin env)
                                  targetUser (fe_balance env - (amount + premium)) asset 0 0]\<rparr>))"
proof -
  let ?bal = "fe_balance env"
  have add: "checked_add amount premium = Inr (amount + premium)"
    and uadd: "unat (amount + premium) = unat amount + unat premium"
    using checked_add_Inr[OF assms] by simp_all
  have lt: "(?bal < amount + premium) = (unat ?bal < unat amount + unat premium)"
    by (simp add: word_less_nat_alt uadd)
  have c1: "unat ?bal < unat amount + unat premium \<Longrightarrow>
      finalizeLiquidation env st asset amount premium targetUser = Inl InsufficientBalance"
    by (simp add: finalizeLiquidation_def Let_def sol_bind_def add lt)
  {
    assume ge: "unat amount + unat premium \<le> unat ?bal"
      and mul: "unat amount * unat MIN_PROFIT_BPS < 2 ^ 256"
    have sub: "checked_sub ?bal (amount + premium) = Inr (?bal - (amount + premium))"
      and usub: "unat (?bal - (amount + premium)) = unat ?bal - (unat amount + unat premium)"
      using checked_sub_Inr[of "amount + premium" ?bal] ge uadd by simp_all
    have m: "checked_mul amount MIN_PROFIT_BPS = Inr (amount * MIN_PROFIT_BPS)"
      and um: "unat (amount * MIN_PROFIT_BPS) = unat amount * unat MIN_PROFIT_BPS"
      using checked_mul_Inr[OF mul] by simp_all
    have d: "checked_div (amount * MIN_PROFIT_BPS) 10000 = Inr (amount * MIN_PROFIT_BPS div 10000)"
      by (simp add: checked_div_def)
    have ud: "unat (amount * MIN_PROFIT_BPS div 10000) = unat amount * unat MIN_PROFIT_BPS div 10000"
      by (simp add: unat_div um)
    have plt: "(?bal - (amount + premium) < amount * MIN_PROFIT_BPS div 10000)
        = (unat ?bal - (unat amount + unat premium) < unat amount * unat MIN_PROFIT_BPS div 10000)"
      by (simp add: word_less_nat_alt usub ud)
    have pre: "finalizeLiquidation env st asset amount premium targetUser =
        (if unat ?bal - (unat amount + unat premium) < unat amount * unat MIN_PROFIT_BPS div 10000
         then Inl InsufficientProfit
         else if \<not> fe_increaseAllowance_ok env then Inl ExternalCallReverted
         else sol_bind (checked_add (totalLiquidationsExecuted st) 1) (\<lambda>executed.
              sol_bind (checked_add (totalProfitGenerated st) (?bal - (amount + premium))) (\<lambda>generated.
              if \<not> fe_approve_ok env then Inl ExternalCallReverted
              else Inr (True, st\<lparr>totalLiquidationsExecuted := executed,
                    totalProfitGenerated := generated,
                    events := events st @ [LiquidationExecuted (if lastExecutor st \<noteq> 0 then lastExecutor st else fe_origin env)
                       targetUser (?bal - (amount + premium)) asset 0 0]\<rparr>))))"
      using ge by (simp add: finalizeLiquidation_def Let_def sol_bind_def add lt sub m d plt)
    note pre usub
  } note body = this
  have c2: "unat amount + unat premium \<le> unat ?bal
            \<and> unat amount * unat MIN_PROFIT_BPS < 2 ^ 256
            \<and> unat ?bal - (unat amount + unat premium) < unat amount * unat MIN_PROFIT_BPS div 10000 \<Longrightarrow>
            finalizeLiquidation env st asset amount premium targetUser = Inl InsufficientProfit"
    using body(1) by simp
  have c3: "unat amount + unat premium \<le> unat ?bal
            \<and> unat amount * unat MIN_PROFIT_BPS < 2 ^ 256
            \<and> unat amount * unat MIN_PROFIT_BPS div 10000 \<le> unat ?bal - (unat amount + unat premium)
            \<and> fe_increaseAllowance_ok env \<and> fe_approve_ok env
            \<and> unat (totalLiquidationsExecuted st) + 1 < 2 ^ 256
            \<and> unat (totalProfitGenerated st) + (unat ?bal - (unat amount + unat premium)) < 2 ^ 256 \<Longrightarrow>
            finalizeLiquidation env st asset amount premium targetUser =
              Inr (True, st\<lparr>totalLiquidationsExecuted := totalLiquidationsExecuted st + 1,
                             totalProfitGenerated := totalProfitGenerated st + (?bal - (amount + premium)),
                             events := events st @
                               [LiquidationExecuted (if lastExecutor st \<noteq> 0 then lastExecutor st else fe_origin env)
                                  targetUser (?bal - (amount + premium)) asset 0 0]\<rparr>)"
  proof -
    assume h: "unat amount + unat premium \<le> unat ?bal
            \<and> unat amount * unat MIN_PROFIT_BPS < 2 ^ 256
            \<and> unat amount * unat MIN_PROFIT_BPS div 10000 \<le> unat ?bal - (unat amount + unat premium)
            \<and> fe_increaseAllowance_ok env \<and> fe_approve_ok env
            \<and> unat (totalLiquidationsExecuted st) + 1 < 2 ^ 256
            \<and> unat (totalProfitGenerated st) + (unat ?bal - (unat amount + unat premium)) < 2 ^ 256"
    then have a1: "checked_add (totalLiquidationsExecuted st) 1 = Inr (totalLiquidationsExecuted st + 1)"
      using checked_add_Inr[of "totalLiquidationsExecuted st" 1] by simp
    have us: "unat (?bal - (amount + premium)) = unat ?bal - (unat amount + unat premium)"
      using body(2) h by blast
    from h have "unat (totalProfitGenerated st) + (unat ?bal - (unat amount + unat premium)) < 2 ^ 256"
      by blast
    then have "unat (totalProfitGenerated st) + unat (?bal - (amount + premium)) < 2 ^ 256"
      by (simp only: us)
    then have a2: "checked_add (totalProfitGenerated st) (?bal - (amount + premium))
        = Inr (totalProfitGenerated st + (?bal - (amount + premium)))"
      using checked_add_Inr by blast
    show ?thesis using h body(1) by (simp add: a1 a2 sol_bind_def)
  qed
  show ?thesis using c1 c2 c3 by blast
qed

text \<open>
  C1. The repay and profit phase belongs to the callback \<open>executeOperation\<close>, which the pool
  invokes while \<open>executeLiquidation\<close> is still running. Both functions are \<open>nonReentrant\<close>:
  in the state in which \<open>executeLiquidation\<close> calls the pool the guard's flag is set, and in
  that state the callback reverts with the guard's error, whatever the pool passes to it.
  The balance check and the profit check are not reached, and no liquidation settles.
\<close>

theorem executeOperation_reverts_inside_executeLiquidation:
  assumes "executeLiquidation sender now st targetUser collateralAsset debtAsset debtAmount
             maxSlippageBps deadline = Inr (st', request)"
  shows "entered st'
       \<and> executeOperation env caller st' asset amount premium initiator params = Inl ReentrantCall"
proof -
  from assms have "st' = st\<lparr>entered := True, lastExecutor := sender\<rparr>"
    by (auto simp: executeLiquidation_def split: if_splits)
  then show ?thesis by (simp add: executeOperation_def)
qed

text \<open>
  The call made in the integration test of the repository: a loan of 1000 tokens (18 decimals) with
  collateral and debt in the same token, the pool's premium of 0.05%, and 1100 tokens of
  collateral received. The submission is accepted and the callback reverts; with the
  guard's flag clear the same callback would pass both checks and return \<open>true\<close>.
\<close>

theorem executeOperation_reverts_inside_executeLiquidation_witness:
  "executeLiquidation 9 100
      \<lparr>POOL = 1, ROUTER = 2, WETH = 3, totalProfitGenerated = 0, totalLiquidationsExecuted = 0,
       lastExecutor = 0, entered = False, paused = False, owner = 9, events = []\<rparr>
      5 4 4 1000000000000000000000 100 3700
     = Inr (\<lparr>POOL = 1, ROUTER = 2, WETH = 3, totalProfitGenerated = 0, totalLiquidationsExecuted = 0,
             lastExecutor = 9, entered = True, paused = False, owner = 9, events = []\<rparr>,
            \<lparr>fl_asset = 4, fl_amount = 1000000000000000000000, fl_targetUser = 5,
             fl_collateralAsset = 4, fl_debtAsset = 4, fl_maxSlippageBps = 100, fl_deadline = 3700\<rparr>)
   \<and> estimateFlashLoanCost 1000000000000000000000 = Inr 500000000000000000
   \<and> executeOperation
       \<lparr>ce_this = 8, ce_timestamp = 100, ce_collateralBefore = 1000000000000000000000,
        ce_increaseAllowance_ok = True, ce_liquidationCall_ok = True,
        ce_collateralAfter = 2100000000000000000000,
        ce_swap = \<lparr>se_timestamp = 100, se_getAmountsOut = (\<lambda>amountIn path. None), se_balanceBefore = 0,
                   se_increaseAllowance_ok = True, se_swap = (\<lambda>amountIn amountOutMin path deadline. None),
                   se_approve_ok = True\<rparr>,
        ce_finalize = \<lparr>fe_balance = 2100000000000000000000, fe_increaseAllowance_ok = True,
                       fe_approve_ok = True, fe_origin = 9\<rparr>\<rparr>
       1
       \<lparr>POOL = 1, ROUTER = 2, WETH = 3, totalProfitGenerated = 0, totalLiquidationsExecuted = 0,
        lastExecutor = 9, entered = True, paused = False, owner = 9, events = []\<rparr>
       4 1000000000000000000000 500000000000000000 8
       \<lparr>lp_targetUser = 5, lp_collateralAsset = 4, lp_debtAsset = 4, lp_maxSlippageBps = 100,
        lp_deadline = 3700\<rparr>
     = Inl ReentrantCall
   \<and> executeOperation
       \<lparr>ce_this = 8, ce_timestamp = 100, ce_collateralBefore = 1000000000000000000000,
        ce_increaseAllowance_ok = True, ce_liquidationCall_ok = True,
        ce_collateralAfter = 2100000000000000000000,
        ce_swap = \<lparr>se_timestamp = 100, se_getAmountsOut = (\<lambda>amountIn path. None), se_balanceBefore = 0,
                   se_increaseAllowance_ok = True, se_swap = (\<lambda>amountIn amountOutMin path deadline. None),
                   se_approve_ok = True\<rparr>,
        ce_finalize = \<lparr>fe_balance = 2100000000000000000000, fe_increaseAllowance_ok = True,
                       fe_approve_ok = True, fe_origin = 9\<rparr>\<rparr>
       1
       \<lparr>POOL = 1, ROUTER = 2, WETH = 3, totalProfitGenerated = 0, totalLiquidationsExecuted = 0,
        lastExecutor = 9, entered = False, paused = False, owner = 9, events = []\<rparr>
       4 1000000000000000000000 500000000000000000 8
       \<lparr>lp_targetUser = 5, lp_collateralAsset = 4, lp_debtAsset = 4, lp_maxSlippageBps = 100,
        lp_deadline = 3700\<rparr>
     = Inr (True, \<lparr>POOL = 1, ROUTER = 2, WETH = 3, totalProfitGenerated = 1099500000000000000000,
        totalLiquidationsExecuted = 1,
        lastExecutor = 9, entered = False, paused = False, owner = 9,
        events = [LiquidationExecuted 9 5 1099500000000000000000 4 0 0]\<rparr>)"
proof -
  have a: "executeLiquidation 9 100
      \<lparr>POOL = 1, ROUTER = 2, WETH = 3, totalProfitGenerated = 0, totalLiquidationsExecuted = 0,
       lastExecutor = 0, entered = False, paused = False, owner = 9, events = []\<rparr>
      5 4 4 1000000000000000000000 100 3700
     = Inr (\<lparr>POOL = 1, ROUTER = 2, WETH = 3, totalProfitGenerated = 0, totalLiquidationsExecuted = 0,
             lastExecutor = 9, entered = True, paused = False, owner = 9, events = []\<rparr>,
            \<lparr>fl_asset = 4, fl_amount = 1000000000000000000000, fl_targetUser = 5,
             fl_collateralAsset = 4, fl_debtAsset = 4, fl_maxSlippageBps = 100, fl_deadline = 3700\<rparr>)"
    by (simp add: executeLiquidation_def MAX_SLIPPAGE_BPS_def)
  have b: "estimateFlashLoanCost 1000000000000000000000 = Inr 500000000000000000"
    by (simp add: estimateFlashLoanCost_def FLASH_LOAN_PREMIUM_BPS_def checked_mul_def checked_div_def
        sol_bind_def)
  have c: "executeOperation
       \<lparr>ce_this = 8, ce_timestamp = 100, ce_collateralBefore = 1000000000000000000000,
        ce_increaseAllowance_ok = True, ce_liquidationCall_ok = True,
        ce_collateralAfter = 2100000000000000000000,
        ce_swap = \<lparr>se_timestamp = 100, se_getAmountsOut = (\<lambda>amountIn path. None), se_balanceBefore = 0,
                   se_increaseAllowance_ok = True, se_swap = (\<lambda>amountIn amountOutMin path deadline. None),
                   se_approve_ok = True\<rparr>,
        ce_finalize = \<lparr>fe_balance = 2100000000000000000000, fe_increaseAllowance_ok = True,
                       fe_approve_ok = True, fe_origin = 9\<rparr>\<rparr>
       1
       \<lparr>POOL = 1, ROUTER = 2, WETH = 3, totalProfitGenerated = 0, totalLiquidationsExecuted = 0,
        lastExecutor = 9, entered = False, paused = False, owner = 9, events = []\<rparr>
       4 1000000000000000000000 500000000000000000 8
       \<lparr>lp_targetUser = 5, lp_collateralAsset = 4, lp_debtAsset = 4, lp_maxSlippageBps = 100,
        lp_deadline = 3700\<rparr>
     = Inr (True, \<lparr>POOL = 1, ROUTER = 2, WETH = 3, totalProfitGenerated = 1099500000000000000000,
        totalLiquidationsExecuted = 1,
        lastExecutor = 9, entered = False, paused = False, owner = 9,
        events = [LiquidationExecuted 9 5 1099500000000000000000 4 0 0]\<rparr>)"
    by (simp add: executeOperation_def processLiquidation_def handleLiquidationSuccess_def
        finalizeLiquidation_def checked_sub_def checked_add_def checked_mul_def checked_div_def
        sol_bind_def MIN_PROFIT_BPS_def Let_def)
  show ?thesis
    using a b c executeOperation_reverts_inside_executeLiquidation [OF a]
    by simp
qed

subsection \<open>Slippage arithmetic and quote checks\<close>

text \<open>
  C2. \<open>executeLiquidation\<close> only hands a slippage bound to the pool that is at most
  \<open>MAX_SLIPPAGE_BPS\<close>. For every such bound \<open>s\<close> and every expected output \<open>e\<close> (in
  particular every \<open>e \<ge> 1\<close>), the subtraction \<open>10000 - s\<close> does not underflow and
  \<open>minAmountOut\<close> never fails with an underflow: it is \<open>e * (10000 - s) / 10000\<close>, the product
  taken first and the quotient rounded down, whenever the product fits in 256 bits (and an
  overflow panic otherwise). \<open>_executeSwap\<close> reverts with \<open>InvalidPath\<close> on a quote of fewer
  than two amounts and with \<open>NoOutput\<close> on a quote whose last amount is zero, whatever the
  router's swap would have done.
\<close>

theorem minAmountOut_never_underflows:
  "(executeLiquidation sender now st targetUser collateralAsset debtAsset debtAmount maxSlippageBps deadline
       = Inr r \<longrightarrow> maxSlippageBps \<le> MAX_SLIPPAGE_BPS \<and> fl_maxSlippageBps (snd r) = maxSlippageBps)
   \<and> (s \<le> MAX_SLIPPAGE_BPS \<longrightarrow>
         checked_sub 10000 s = Inr (10000 - s)
       \<and> minAmountOut e s \<noteq> Inl (Panic ArithmeticUnderflow)
       \<and> (unat e * (10000 - unat s) < 2 ^ 256 \<longrightarrow>
            (\<exists>m. minAmountOut e s = Inr m \<and> unat m = unat e * (10000 - unat s) div 10000))
       \<and> (\<not> unat e * (10000 - unat s) < 2 ^ 256 \<longrightarrow> minAmountOut e s = Inl (Panic ArithmeticOverflow)))
   \<and> (se_timestamp env \<le> dl
        \<and> se_getAmountsOut env amountIn (buildSwapPath st' tokenIn tokenOut) = Some quote
        \<and> length quote < 2 \<longrightarrow>
         executeSwap env st' tokenIn tokenOut amountIn s dl = Inl InvalidPath)
   \<and> (se_timestamp env \<le> dl
        \<and> se_getAmountsOut env amountIn (buildSwapPath st' tokenIn tokenOut) = Some quote
        \<and> 2 \<le> length quote \<and> last quote = 0 \<longrightarrow>
         executeSwap env st' tokenIn tokenOut amountIn s dl = Inl NoOutput)"
proof -
  have a: "executeLiquidation sender now st targetUser collateralAsset debtAsset debtAmount maxSlippageBps deadline
       = Inr r \<longrightarrow> maxSlippageBps \<le> MAX_SLIPPAGE_BPS \<and> fl_maxSlippageBps (snd r) = maxSlippageBps"
    by (auto simp: executeLiquidation_def split: if_splits)
  have b1: "s \<le> MAX_SLIPPAGE_BPS \<Longrightarrow> checked_sub 10000 s = Inr (10000 - s)"
    using checked_sub_Inr[of s 10000] by (simp add: MAX_SLIPPAGE_BPS_def word_le_nat_alt)
  have c: "se_timestamp env \<le> dl
        \<and> se_getAmountsOut env amountIn (buildSwapPath st' tokenIn tokenOut) = Some quote
        \<and> length quote < 2 \<longrightarrow>
         executeSwap env st' tokenIn tokenOut amountIn s dl = Inl InvalidPath"
    by (simp add: executeSwap_def Let_def not_less[symmetric])
  have d: "se_timestamp env \<le> dl
        \<and> se_getAmountsOut env amountIn (buildSwapPath st' tokenIn tokenOut) = Some quote
        \<and> 2 \<le> length quote \<and> last quote = 0 \<longrightarrow>
         executeSwap env st' tokenIn tokenOut amountIn s dl = Inl NoOutput"
    by (cases quote rule: rev_cases) (auto simp: executeSwap_def Let_def nth_append)
  show ?thesis using a b1 c d minAmountOut_char[of s e] minAmountOut_not_underflow[of s e] by blast
qed

theorem minAmountOut_never_underflows_witness:
  "executeLiquidation 9 100
      \<lparr>POOL = 1, ROUTER = 2, WETH = 3, totalProfitGenerated = 0, totalLiquidationsExecuted = 0,
       lastExecutor = 0, entered = False, paused = False, owner = 9, events = []\<rparr> 5 6 4 2000 1000 200
     = Inr (\<lparr>POOL = 1, ROUTER = 2, WETH = 3, totalProfitGenerated = 0, totalLiquidationsExecuted = 0,
       lastExecutor = 9, entered = True, paused = False, owner = 9, events = []\<rparr>,
      \<lparr>fl_asset = 4, fl_amount = 2000, fl_targetUser = 5, fl_collateralAsset = 6, fl_debtAsset = 4,
       fl_maxSlippageBps = 1000, fl_deadline = 200\<rparr>)
   \<and> (1000 :: uint256) \<le> MAX_SLIPPAGE_BPS
   \<and> minAmountOut 1 1000 = Inr 0
   \<and> executeSwap \<lparr>se_timestamp = 100, se_getAmountsOut = (\<lambda>a p. Some [a]), se_balanceBefore = 0,
        se_increaseAllowance_ok = True, se_swap = (\<lambda>a m p d. Some 50), se_approve_ok = True\<rparr>
       \<lparr>POOL = 1, ROUTER = 2, WETH = 3, totalProfitGenerated = 0, totalLiquidationsExecuted = 0,
       lastExecutor = 9, entered = True, paused = False, owner = 9, events = []\<rparr> 6 4 50 1000 200
     = Inl InvalidPath
   \<and> executeSwap \<lparr>se_timestamp = 100, se_getAmountsOut = (\<lambda>a p. Some [a, 0, 0]), se_balanceBefore = 0,
        se_increaseAllowance_ok = True, se_swap = (\<lambda>a m p d. Some 50), se_approve_ok = True\<rparr>
       \<lparr>POOL = 1, ROUTER = 2, WETH = 3, totalProfitGenerated = 0, totalLiquidationsExecuted = 0,
       lastExecutor = 9, entered = True, paused = False, owner = 9, events = []\<rparr> 6 4 50 1000 200
     = Inl NoOutput"
proof -
  let ?st = "\<lparr>POOL = 1, ROUTER = 2, WETH = 3, totalProfitGenerated = 0, totalLiquidationsExecuted = 0,
       lastExecutor = 0, entered = False, paused = False, owner = 9, events = []\<rparr>"
  let ?st' = "\<lparr>POOL = 1, ROUTER = 2, WETH = 3, totalProfitGenerated = 0, totalLiquidationsExecuted = 0,
       lastExecutor = 9, entered = True, paused = False, owner = 9, events = []\<rparr>"
  let ?req = "\<lparr>fl_asset = 4, fl_amount = 2000, fl_targetUser = 5, fl_collateralAsset = 6, fl_debtAsset = 4,
       fl_maxSlippageBps = 1000, fl_deadline = 200\<rparr>"
  let ?env1 = "\<lparr>se_timestamp = 100, se_getAmountsOut = (\<lambda>a p. Some [a]), se_balanceBefore = 0,
        se_increaseAllowance_ok = True, se_swap = (\<lambda>a m p d. Some 50), se_approve_ok = True\<rparr>"
  let ?env2 = "\<lparr>se_timestamp = 100, se_getAmountsOut = (\<lambda>a p. Some [a, 0, 0]), se_balanceBefore = 0,
        se_increaseAllowance_ok = True, se_swap = (\<lambda>a m p d. Some 50), se_approve_ok = True\<rparr>"
  have a: "executeLiquidation 9 100 ?st 5 6 4 2000 1000 200 = Inr (?st', ?req)"
    by (simp add: executeLiquidation_def MAX_SLIPPAGE_BPS_def)
  have q1: "se_timestamp ?env1 \<le> 200
      \<and> se_getAmountsOut ?env1 50 (buildSwapPath ?st' 6 4) = Some [50] \<and> length [50 :: uint256] < 2"
    by simp
  have q2: "se_timestamp ?env2 \<le> 200
      \<and> se_getAmountsOut ?env2 50 (buildSwapPath ?st' 6 4) = Some [50, 0, 0]
      \<and> 2 \<le> length [50 :: uint256, 0, 0] \<and> last [50 :: uint256, 0, 0] = 0"
    by simp
  note t1 = minAmountOut_never_underflows
    [of 9 100 ?st 5 6 4 2000 1000 200 "(?st', ?req)" 1000 1 ?env1 200 50 ?st' 6 4 "[50]"]
  note t2 = minAmountOut_never_underflows
    [of 9 100 ?st 5 6 4 2000 1000 200 "(?st', ?req)" 1000 1 ?env2 200 50 ?st' 6 4 "[50, 0, 0]"]
  have le: "(1000 :: uint256) \<le> MAX_SLIPPAGE_BPS" using t1 a by blast
  have "\<exists>m. minAmountOut 1 1000 = Inr m \<and> unat m = unat (1 :: uint256) * (10000 - unat (1000 :: uint256)) div 10000"
    using t1 le by simp
  then have m: "minAmountOut 1 1000 = Inr 0" by (auto simp: unat_eq_zero)
  have p1: "executeSwap ?env1 ?st' 6 4 50 1000 200 = Inl InvalidPath" using t1 q1 by blast
  have p2: "executeSwap ?env2 ?st' 6 4 50 1000 200 = Inl NoOutput" using t2 q2 by blast
  show ?thesis using a le m p1 p2 by blast
qed

subsection \<open>Health factor\<close>

text \<open>
  C3. When the total debt value is positive, the health factor \<open>calculateHealthFactor\<close>
  returns is the threshold-weighted collateral total divided by the total debt value. When
  the total debt value is zero it is the fixed finite number 999, for which
  \<open>isLiquidatable\<close> (health factor below 1) is false.
\<close>

theorem healthFactor_sentinel:
  "(totalDebtETH (calculateHealthFactor u) = Num d \<and> 0 < d \<longrightarrow>
      healthFactor (calculateHealthFactor u) = num_div (totalCollateralWithThreshold u) (Num d)
      \<and> (totalCollateralWithThreshold u = Num w \<longrightarrow> healthFactor (calculateHealthFactor u) = Num (w / d)))
   \<and> (totalDebtETH (calculateHealthFactor u) = Num 0 \<longrightarrow>
      healthFactor (calculateHealthFactor u) = Num 999
      \<and> \<not> isLiquidatable (healthFactor (calculateHealthFactor u)))"
  by (auto simp: calculateHealthFactor_def totalCollateralWithThreshold_def isLiquidatable_def
      split: prod.splits)

theorem healthFactor_sentinel_witness:
  "healthFactor (calculateHealthFactor
      \<lparr>user_id = ''0xabc'', user_reserves =
        [\<lparr>symbol = ''WETH'', decimals = 0, liquidationThreshold = Num 8000, priceInEth = Num 1,
          currentATokenBalance = Num 10, currentVariableDebt = Num 0, currentStableDebt = Num 0,
          usageAsCollateralEnabledOnUser = True\<rparr>,
         \<lparr>symbol = ''DAI'', decimals = 0, liquidationThreshold = Num 7500, priceInEth = Num 2,
          currentATokenBalance = Num 0, currentVariableDebt = Num 4, currentStableDebt = Num 1,
          usageAsCollateralEnabledOnUser = False\<rparr>]\<rparr>) = Num (8 / 10)
   \<and> healthFactor (calculateHealthFactor
      \<lparr>user_id = ''0xdef'', user_reserves =
        [\<lparr>symbol = ''WETH'', decimals = 0, liquidationThreshold = Num 8000, priceInEth = Num 1,
          currentATokenBalance = Num 10, currentVariableDebt = Num 0, currentStableDebt = Num 0,
          usageAsCollateralEnabledOnUser = True\<rparr>]\<rparr>) = Num 999
   \<and> \<not> isLiquidatable (Num 999)"
proof -
  let ?u = "\<lparr>user_id = ''0xabc'', user_reserves =
        [\<lparr>symbol = ''WETH'', decimals = 0, liquidationThreshold = Num 8000, priceInEth = Num 1,
          currentATokenBalance = Num 10, currentVariableDebt = Num 0, currentStableDebt = Num 0,
          usageAsCollateralEnabledOnUser = True\<rparr>,
         \<lparr>symbol = ''DAI'', decimals = 0, liquidationThreshold = Num 7500, priceInEth = Num 2,
          currentATokenBalance = Num 0, currentVariableDebt = Num 4, currentStableDebt = Num 1,
          usageAsCollateralEnabledOnUser = False\<rparr>]\<rparr>"
  let ?v = "\<lparr>user_id = ''0xdef'', user_reserves =
        [\<lparr>symbol = ''WETH'', decimals = 0, liquidationThreshold = Num 8000, priceInEth = Num 1,
          currentATokenBalance = Num 10, currentVariableDebt = Num 0, currentStableDebt = Num 0,
          usageAsCollateralEnabledOnUser = True\<rparr>]\<rparr>"
  have tu: "hf_totals (user_reserves ?u) = (Num 10, Num 10, Num 8)"
    by (simp add: hf_totals_def reserve_step_def counts_as_collateral_def totalDebt_def
        collateralValueETH_def debtValueETH_def pow10_def)
  have tv: "hf_totals (user_reserves ?v) = (Num 10, Num 0, Num 8)"
    by (simp add: hf_totals_def reserve_step_def counts_as_collateral_def totalDebt_def
        collateralValueETH_def debtValueETH_def pow10_def)
  have du: "totalDebtETH (calculateHealthFactor ?u) = Num 10" "totalCollateralWithThreshold ?u = Num 8"
    using tu by (simp_all add: calculateHealthFactor_def totalCollateralWithThreshold_def)
  have dv: "totalDebtETH (calculateHealthFactor ?v) = Num 0"
    using tv by (simp add: calculateHealthFactor_def)
  show ?thesis
    using healthFactor_sentinel[of ?u 10 8] healthFactor_sentinel[of ?v 0 0] du dv
    by (simp add: isLiquidatable_def)
qed

subsection \<open>Classification\<close>

lemma convert_healthFactor:
  "convertToLiquidationPosition ethPrice h eMin eMax = Some p \<Longrightarrow>
     pos_healthFactor p = healthFactor h \<and> pos_status p = status_of (healthFactor h) eMin eMax"
  by (auto simp: convertToLiquidationPosition_def Let_def split: prod.splits if_splits)

text \<open>
  The classification is what the scan does with a user: with room left under \<open>maxUsers\<close>, a
  user whose largest collateral and largest debt have a value is skipped when its health
  factor classifies as \<open>Safe\<close> and is reported with status \<open>monitoring\<close> or \<open>in_range\<close> when it
  classifies as \<open>Monitoring\<close> or \<open>InExecutionRange\<close>.
\<close>

lemma classify_process_users:
  "n < maxUsers \<Longrightarrow>
   snd (process_users ethPrice mMin mMax eMin eMax maxUsers [u] (n, ps)) =
     (case convertToLiquidationPosition ethPrice (calculateHealthFactor u) eMin eMax of
        None \<Rightarrow> ps
      | Some p \<Rightarrow>
          (case classify (healthFactor (calculateHealthFactor u)) mMin mMax eMin eMax of
             Safe \<Rightarrow> ps
           | Monitoring \<Rightarrow> ps @ [p\<lparr>pos_status := monitoring\<rparr>]
           | InExecutionRange \<Rightarrow> ps @ [p\<lparr>pos_status := in_range\<rparr>]))"
  by (auto simp: Let_def classify_def status_of_def split: option.splits dest!: convert_healthFactor)

text \<open>
  C4. The execution range is a sub-range of the monitoring range,
  \<open>monitoringMin \<le> executionMin \<le> executionMax \<le> monitoringMax\<close> (an invariant of the
  configuration). For every health factor and every such pair of ranges, the health factor
  is classified \<open>InExecutionRange\<close> if and only if it lies in \<open>[executionMin, executionMax]\<close>,
  \<open>Monitoring\<close> if and only if it lies in \<open>[monitoringMin, executionMin)\<close> or in
  \<open>(executionMax, monitoringMax]\<close>, and \<open>Safe\<close> otherwise. With the ranges \<open>{0.75, 1.05}\<close> and
  \<open>{0.85, 0.87}\<close>: 0.86 is \<open>InExecutionRange\<close>, 0.80 is \<open>Monitoring\<close>, 1.20 is \<open>Safe\<close>. The scan
  treats a user by the class of its health factor: skipped when \<open>Safe\<close>, reported as
  \<open>monitoring\<close> or \<open>in_range\<close> otherwise.
\<close>

theorem classify_ranges:
  assumes "num_le monitoringMin executionMin" and "num_le executionMin executionMax"
    and "num_le executionMax monitoringMax"
  shows "(classify hf monitoringMin monitoringMax executionMin executionMax = InExecutionRange
            \<longleftrightarrow> num_le executionMin hf \<and> num_le hf executionMax)
       \<and> (classify hf monitoringMin monitoringMax executionMin executionMax = Monitoring
            \<longleftrightarrow> (num_le monitoringMin hf \<and> num_lt hf executionMin)
                \<or> (num_lt executionMax hf \<and> num_le hf monitoringMax))
       \<and> (classify hf monitoringMin monitoringMax executionMin executionMax = Safe
            \<longleftrightarrow> \<not> (num_le monitoringMin hf \<and> num_le hf monitoringMax))
       \<and> classify (Num (86 / 100)) (Num (75 / 100)) (Num (105 / 100)) (Num (85 / 100)) (Num (87 / 100)) = InExecutionRange
       \<and> classify (Num (80 / 100)) (Num (75 / 100)) (Num (105 / 100)) (Num (85 / 100)) (Num (87 / 100)) = Monitoring
       \<and> classify (Num (120 / 100)) (Num (75 / 100)) (Num (105 / 100)) (Num (85 / 100)) (Num (87 / 100)) = Safe
       \<and> (n < maxUsers \<longrightarrow>
            snd (process_users ethPrice monitoringMin monitoringMax executionMin executionMax maxUsers [u] (n, ps)) =
              (case convertToLiquidationPosition ethPrice (calculateHealthFactor u) executionMin executionMax of
                 None \<Rightarrow> ps
               | Some p \<Rightarrow>
                   (case classify (healthFactor (calculateHealthFactor u))
                           monitoringMin monitoringMax executionMin executionMax of
                      Safe \<Rightarrow> ps
                    | Monitoring \<Rightarrow> ps @ [p\<lparr>pos_status := monitoring\<rparr>]
                    | InExecutionRange \<Rightarrow> ps @ [p\<lparr>pos_status := in_range\<rparr>])))"
proof -
  have classes:
    "(classify hf monitoringMin monitoringMax executionMin executionMax = InExecutionRange
            \<longleftrightarrow> num_le executionMin hf \<and> num_le hf executionMax)
       \<and> (classify hf monitoringMin monitoringMax executionMin executionMax = Monitoring
            \<longleftrightarrow> (num_le monitoringMin hf \<and> num_lt hf executionMin)
                \<or> (num_lt executionMax hf \<and> num_le hf monitoringMax))
       \<and> (classify hf monitoringMin monitoringMax executionMin executionMax = Safe
            \<longleftrightarrow> \<not> (num_le monitoringMin hf \<and> num_le hf monitoringMax))"
    using assms
    by (cases hf; cases monitoringMin; cases monitoringMax; cases executionMin; cases executionMax)
       (auto simp: classify_def in_monitoring_range_def status_of_def)
  have examples:
    "classify (Num (86 / 100)) (Num (75 / 100)) (Num (105 / 100)) (Num (85 / 100)) (Num (87 / 100)) = InExecutionRange
       \<and> classify (Num (80 / 100)) (Num (75 / 100)) (Num (105 / 100)) (Num (85 / 100)) (Num (87 / 100)) = Monitoring
       \<and> classify (Num (120 / 100)) (Num (75 / 100)) (Num (105 / 100)) (Num (85 / 100)) (Num (87 / 100)) = Safe"
    by (simp add: classify_def in_monitoring_range_def status_of_def)
  show ?thesis
    using classes examples
      classify_process_users [of n maxUsers ethPrice monitoringMin monitoringMax executionMin executionMax u ps]
    by blast
qed

theorem classify_ranges_witness:
  "classify (Num (86 / 100)) (Num (75 / 100)) (Num (105 / 100)) (Num (85 / 100)) (Num (87 / 100)) = InExecutionRange
   \<and> classify (Num (90 / 100)) (Num (75 / 100)) (Num (105 / 100)) (Num (85 / 100)) (Num (87 / 100)) = Monitoring
   \<and> classify (Num 2) (Num (75 / 100)) (Num (105 / 100)) (Num (85 / 100)) (Num (87 / 100)) = Safe
   \<and> map pos_status (snd (process_users (Num 3200) (Num (75 / 100)) (Num (105 / 100)) (Num (85 / 100)) (Num (87 / 100)) 100
        [\<lparr>user_id = ''0xa'', user_reserves =
          [\<lparr>symbol = ''WETH'', decimals = 0, liquidationThreshold = Num 8600, priceInEth = Num 1,
            currentATokenBalance = Num 10, currentVariableDebt = Num 0, currentStableDebt = Num 0,
            usageAsCollateralEnabledOnUser = True\<rparr>,
           \<lparr>symbol = ''DAI'', decimals = 0, liquidationThreshold = Num 7500, priceInEth = Num 1,
            currentATokenBalance = Num 0, currentVariableDebt = Num 10, currentStableDebt = Num 0,
            usageAsCollateralEnabledOnUser = False\<rparr>]\<rparr>] (0, []))) = [in_range]"
proof -
  let ?u = "\<lparr>user_id = ''0xa'', user_reserves =
          [\<lparr>symbol = ''WETH'', decimals = 0, liquidationThreshold = Num 8600, priceInEth = Num 1,
            currentATokenBalance = Num 10, currentVariableDebt = Num 0, currentStableDebt = Num 0,
            usageAsCollateralEnabledOnUser = True\<rparr>,
           \<lparr>symbol = ''DAI'', decimals = 0, liquidationThreshold = Num 7500, priceInEth = Num 1,
            currentATokenBalance = Num 0, currentVariableDebt = Num 10, currentStableDebt = Num 0,
            usageAsCollateralEnabledOnUser = False\<rparr>]\<rparr>"
  have t: "hf_totals (user_reserves ?u) = (Num 10, Num 10, Num (86 / 10))"
    by (simp add: hf_totals_def reserve_step_def counts_as_collateral_def totalDebt_def
        collateralValueETH_def debtValueETH_def pow10_def)
  have h: "healthFactor (calculateHealthFactor ?u) = Num (86 / 100)"
    using t by (simp add: calculateHealthFactor_def)
  have c: "convertToLiquidationPosition (Num 3200) (calculateHealthFactor ?u) (Num (85 / 100)) (Num (87 / 100)) \<noteq> None"
    using t by (simp add: convertToLiquidationPosition_def calculateHealthFactor_def largest_step_def
        largest_init_def counts_as_collateral_def totalDebt_def collateralValueETH_def debtValueETH_def
        pow10_def Let_def)
  note r1 = classify_ranges [of "Num (75 / 100)" "Num (85 / 100)" "Num (87 / 100)" "Num (105 / 100)"
      "Num (86 / 100)" 0 100 "Num 3200" ?u "[]"]
  note r2 = classify_ranges [of "Num (75 / 100)" "Num (85 / 100)" "Num (87 / 100)" "Num (105 / 100)"
      "Num (90 / 100)" 0 100 "Num 3200" ?u "[]"]
  note r3 = classify_ranges [of "Num (75 / 100)" "Num (85 / 100)" "Num (87 / 100)" "Num (105 / 100)"
      "Num 2" 0 100 "Num 3200" ?u "[]"]
  have a: "classify (Num (86 / 100)) (Num (75 / 100)) (Num (105 / 100)) (Num (85 / 100)) (Num (87 / 100)) = InExecutionRange"
    using r1 by simp
  have b: "classify (Num (90 / 100)) (Num (75 / 100)) (Num (105 / 100)) (Num (85 / 100)) (Num (87 / 100)) = Monitoring"
    using r2 by simp
  have d: "classify (Num 2) (Num (75 / 100)) (Num (105 / 100)) (Num (85 / 100)) (Num (87 / 100)) = Safe"
    using r3 by simp
  have "snd (process_users (Num 3200) (Num (75 / 100)) (Num (105 / 100)) (Num (85 / 100)) (Num (87 / 100)) 100 [?u] (0, [])) =
          (case convertToLiquidationPosition (Num 3200) (calculateHealthFactor ?u) (Num (85 / 100)) (Num (87 / 100)) of
                 None \<Rightarrow> []
               | Some p \<Rightarrow>
                   (case classify (healthFactor (calculateHealthFactor ?u))
                           (Num (75 / 100)) (Num (105 / 100)) (Num (85 / 100)) (Num (87 / 100)) of
                      Safe \<Rightarrow> []
                    | Monitoring \<Rightarrow> [] @ [p\<lparr>pos_status := monitoring\<rparr>]
                    | InExecutionRange \<Rightarrow> [] @ [p\<lparr>pos_status := in_range\<rparr>]))"
    using r1 by simp
  then have e: "map pos_status (snd (process_users (Num 3200) (Num (75 / 100)) (Num (105 / 100)) (Num (85 / 100)) (Num (87 / 100)) 100 [?u] (0, []))) = [in_range]"
    using c by (auto simp only: h a split: option.splits) auto
  show ?thesis using a b d e by blast
qed

subsection \<open>Missing prices\<close>

lemma fold_collateral_NaN: "fst (fold reserve_step rs (NaN, d, w)) = NaN"
  by (induction rs arbitrary: d w) (simp_all add: reserve_step_def Let_def)

lemma fold_debt_NaN: "fst (snd (fold reserve_step rs (c, NaN, w))) = NaN"
  by (induction rs arbitrary: c w) (simp_all add: reserve_step_def Let_def)

lemma fold_weighted_NaN: "snd (snd (fold reserve_step rs (c, d, NaN))) = NaN"
  by (induction rs arbitrary: c d) (simp_all add: reserve_step_def Let_def)

lemma num_mul_NaN: "num_mul x NaN = NaN"
  by (cases x) simp_all

lemma num_add_NaN: "num_add x NaN = NaN"
  by (cases x) simp_all

lemma missing_price_collateral:
  assumes "r \<in> set rs" and "priceInEth r = NaN" and "counts_as_collateral r"
  shows "fst (fold reserve_step rs acc) = NaN \<and> snd (snd (fold reserve_step rs acc)) = NaN"
proof -
  from assms(1) obtain ys zs where rs: "rs = ys @ r # zs" by (auto dest: split_list)
  obtain c d w where acc: "fold reserve_step ys acc = (c, d, w)" by (cases "fold reserve_step ys acc") auto
  have "\<exists>d'. reserve_step r (c, d, w) = (NaN, d', NaN)"
    using assms(2,3) by (simp add: reserve_step_def Let_def collateralValueETH_def num_mul_NaN num_add_NaN)
  then obtain d' where "fold reserve_step rs acc = fold reserve_step zs (NaN, d', NaN)"
    using rs acc by auto
  then show ?thesis by (simp add: fold_collateral_NaN fold_weighted_NaN)
qed

lemma missing_price_debt:
  assumes "r \<in> set rs" and "priceInEth r = NaN" and "num_gt (totalDebt r) (Num 0)"
  shows "fst (snd (fold reserve_step rs acc)) = NaN"
proof -
  from assms(1) obtain ys zs where rs: "rs = ys @ r # zs" by (auto dest: split_list)
  obtain c d w where acc: "fold reserve_step ys acc = (c, d, w)" by (cases "fold reserve_step ys acc") auto
  have "\<exists>c' w'. reserve_step r (c, d, w) = (c', NaN, w')"
    using assms(2,3) by (simp add: reserve_step_def Let_def debtValueETH_def num_mul_NaN num_add_NaN)
  then obtain c' w' where "fold reserve_step rs acc = fold reserve_step zs (c', NaN, w')"
    using rs acc by auto
  then show ?thesis by (simp add: fold_debt_NaN)
qed

text \<open>
  C7 (as amended). \<open>calculateHealthFactor\<close> does not exclude an entry whose price is missing
  (does not parse). If the entry counts as collateral, the collateral total and the weighted
  total are \<open>NaN\<close> and the current liquidation threshold is 0; if it carries debt, the debt
  total is \<open>NaN\<close> and the health factor is the sentinel 999.
\<close>

theorem missing_price_not_excluded:
  assumes "r \<in> set (user_reserves u)" and "priceInEth r = NaN"
  shows "(counts_as_collateral r \<longrightarrow>
            totalCollateralETH (calculateHealthFactor u) = NaN
          \<and> totalCollateralWithThreshold u = NaN
          \<and> currentLiquidationThreshold (calculateHealthFactor u) = Num 0)
       \<and> (num_gt (totalDebt r) (Num 0) \<longrightarrow>
            totalDebtETH (calculateHealthFactor u) = NaN
          \<and> healthFactor (calculateHealthFactor u) = Num 999)"
proof -
  obtain c d w where t: "hf_totals (user_reserves u) = (c, d, w)"
    by (cases "hf_totals (user_reserves u)") auto
  have a: "counts_as_collateral r \<Longrightarrow> c = NaN \<and> w = NaN"
    using missing_price_collateral[OF assms(1,2), of "(Num 0, Num 0, Num 0)"] t
    by (simp add: hf_totals_def)
  have b: "num_gt (totalDebt r) (Num 0) \<Longrightarrow> d = NaN"
    using missing_price_debt[OF assms(1,2), of "(Num 0, Num 0, Num 0)"] t
    by (simp add: hf_totals_def)
  show ?thesis using a b t
    by (auto simp: calculateHealthFactor_def totalCollateralWithThreshold_def)
qed

theorem missing_price_not_excluded_witness:
  "totalCollateralETH (calculateHealthFactor
      \<lparr>user_id = ''0xabc'', user_reserves =
        [\<lparr>symbol = ''WETH'', decimals = 0, liquidationThreshold = Num 8000, priceInEth = Num 1,
          currentATokenBalance = Num 10, currentVariableDebt = Num 0, currentStableDebt = Num 0,
          usageAsCollateralEnabledOnUser = True\<rparr>,
         \<lparr>symbol = ''XYZ'', decimals = 0, liquidationThreshold = Num 7500, priceInEth = NaN,
          currentATokenBalance = Num 5, currentVariableDebt = Num 4, currentStableDebt = Num 0,
          usageAsCollateralEnabledOnUser = True\<rparr>]\<rparr>) = NaN
   \<and> healthFactor (calculateHealthFactor
      \<lparr>user_id = ''0xabc'', user_reserves =
        [\<lparr>symbol = ''WETH'', decimals = 0, liquidationThreshold = Num 8000, priceInEth = Num 1,
          currentATokenBalance = Num 10, currentVariableDebt = Num 0, currentStableDebt = Num 0,
          usageAsCollateralEnabledOnUser = True\<rparr>,
         \<lparr>symbol = ''XYZ'', decimals = 0, liquidationThreshold = Num 7500, priceInEth = NaN,
          currentATokenBalance = Num 5, currentVariableDebt = Num 4, currentStableDebt = Num 0,
          usageAsCollateralEnabledOnUser = True\<rparr>]\<rparr>) = Num 999"
  using missing_price_not_excluded [of
         "\<lparr>symbol = ''XYZ'', decimals = 0, liquidationThreshold = Num 7500, priceInEth = NaN,
          currentATokenBalance = Num 5, currentVariableDebt = Num 4, currentStableDebt = Num 0,
          usageAsCollateralEnabledOnUser = True\<rparr>"
      "\<lparr>user_id = ''0xabc'', user_reserves =
        [\<lparr>symbol = ''WETH'', decimals = 0, liquidationThreshold = Num 8000, priceInEth = Num 1,
          currentATokenBalance = Num 10, currentVariableDebt = Num 0, currentStableDebt = Num 0,
          usageAsCollateralEnabledOnUser = True\<rparr>,
         \<lparr>symbol = ''XYZ'', decimals = 0, liquidationThreshold = Num 7500, priceInEth = NaN,
          currentATokenBalance = Num 5, currentVariableDebt = Num 4, currentStableDebt = Num 0,
          usageAsCollateralEnabledOnUser = True\<rparr>]\<rparr>"]
  by (simp add: counts_as_collateral_def totalDebt_def)

text \<open>
  C7 as stated has the totals equal those of the entries with prices. A user with a priced
  collateral of value 10 and a second collateral without a price has a collateral total of
  \<open>NaN\<close>; the priced entry alone gives 10.
\<close>

theorem missing_price_excluded_counterexample:
  "totalCollateralETH (calculateHealthFactor
      \<lparr>user_id = ''0xabc'', user_reserves =
        [\<lparr>symbol = ''WETH'', decimals = 0, liquidationThreshold = Num 8000, priceInEth = Num 1,
          currentATokenBalance = Num 10, currentVariableDebt = Num 0, currentStableDebt = Num 0,
          usageAsCollateralEnabledOnUser = True\<rparr>,
         \<lparr>symbol = ''XYZ'', decimals = 0, liquidationThreshold = Num 7500, priceInEth = NaN,
          currentATokenBalance = Num 5, currentVariableDebt = Num 0, currentStableDebt = Num 0,
          usageAsCollateralEnabledOnUser = True\<rparr>]\<rparr>) = NaN
   \<and> totalCollateralETH (calculateHealthFactor
      \<lparr>user_id = ''0xabc'', user_reserves =
        [\<lparr>symbol = ''WETH'', decimals = 0, liquidationThreshold = Num 8000, priceInEth = Num 1,
          currentATokenBalance = Num 10, currentVariableDebt = Num 0, currentStableDebt = Num 0,
          usageAsCollateralEnabledOnUser = True\<rparr>]\<rparr>) = Num 10
   \<and> totalCollateralETH (calculateHealthFactor
      \<lparr>user_id = ''0xabc'', user_reserves =
        [\<lparr>symbol = ''WETH'', decimals = 0, liquidationThreshold = Num 8000, priceInEth = Num 1,
          currentATokenBalance = Num 10, currentVariableDebt = Num 0, currentStableDebt = Num 0,
          usageAsCollateralEnabledOnUser = True\<rparr>,
         \<lparr>symbol = ''XYZ'', decimals = 0, liquidationThreshold = Num 7500, priceInEth = NaN,
          currentATokenBalance = Num 5, currentVariableDebt = Num 0, currentStableDebt = Num 0,
          usageAsCollateralEnabledOnUser = True\<rparr>]\<rparr>)
     \<noteq> totalCollateralETH (calculateHealthFactor
      \<lparr>user_id = ''0xabc'', user_reserves =
        [\<lparr>symbol = ''WETH'', decimals = 0, liquidationThreshold = Num 8000, priceInEth = Num 1,
          currentATokenBalance = Num 10, currentVariableDebt = Num 0, currentStableDebt = Num 0,
          usageAsCollateralEnabledOnUser = True\<rparr>]\<rparr>)"
  by (simp add: calculateHealthFactor_def hf_totals_def reserve_step_def counts_as_collateral_def
      totalDebt_def collateralValueETH_def debtValueETH_def pow10_def)

subsection \<open>Current liquidation threshold\<close>

text \<open>
  Rounding to the nearest double is monotone on the non-negative reals, leaves a double as
  it is, and is exact on \<open>m * 2^k\<close> for \<open>0 < m < 2^53\<close> and \<open>k \<ge> -1074\<close>.
\<close>

lemma p2_pos: "0 < p2 k" by (simp add: p2_def)

lemma p2_add: "p2 (a + b) = p2 a * p2 b" by (simp add: p2_def powr_add)

lemma p2_mono: "a \<le> b \<Longrightarrow> p2 a \<le> p2 b" by (simp add: p2_def)

lemma p2_nat: "0 \<le> k \<Longrightarrow> p2 k = of_int (2 ^ nat k)"
  by (simp add: p2_def powr_real_of_int)

lemma rhe_floor_le: "\<lfloor>x\<rfloor> \<le> round_half_even x"
  by (simp add: round_half_even_def Let_def)

lemma rhe_le: "round_half_even x \<le> \<lfloor>x\<rfloor> + 1"
  by (simp add: round_half_even_def Let_def)

lemma rhe_of_int: "round_half_even (of_int n) = n"
  by (simp add: round_half_even_def Let_def)

lemma rhe_mono: "x \<le> y \<Longrightarrow> round_half_even x \<le> round_half_even y"
proof -
  assume xy: "x \<le> y"
  show ?thesis
  proof (cases "\<lfloor>x\<rfloor> = \<lfloor>y\<rfloor>")
    case True
    then show ?thesis using xy by (auto simp: round_half_even_def Let_def)
  next
    case False
    with xy have "\<lfloor>x\<rfloor> < \<lfloor>y\<rfloor>" using floor_mono[OF xy] by linarith
    then have "round_half_even x \<le> \<lfloor>y\<rfloor>" using rhe_le[of x] by linarith
    then show ?thesis using rhe_floor_le[of y] by linarith
  qed
qed

lemma rhe_upper: "x \<le> of_int n \<Longrightarrow> round_half_even x \<le> n"
  using rhe_mono[of x "of_int n"] by (simp add: rhe_of_int)

lemma rhe_lower: "of_int n \<le> x \<Longrightarrow> n \<le> round_half_even x"
  using rhe_mono[of "of_int n" x] by (simp add: rhe_of_int)

lemma floor_log_upper: "0 < x \<Longrightarrow> x < p2 (\<lfloor>log 2 x\<rfloor> + 1)"
  using floor_log_eq_powr_iff[of x 2 "\<lfloor>log 2 x\<rfloor>"] by (simp add: p2_def)

lemma floor_log_lower: "0 < x \<Longrightarrow> p2 \<lfloor>log 2 x\<rfloor> \<le> x"
  using floor_log_eq_powr_iff[of x 2 "\<lfloor>log 2 x\<rfloor>"] by (simp add: p2_def)

lemma binade_upper: "0 < x \<Longrightarrow> x < p2 (binade x + 1)"
proof -
  assume x: "0 < x"
  have "p2 (\<lfloor>log 2 x\<rfloor> + 1) \<le> p2 (binade x + 1)"
    using x by (intro p2_mono) (simp add: binade_def)
  with floor_log_upper[OF x] show ?thesis by linarith
qed

lemma binade_lower: "0 < x \<Longrightarrow> - 1022 < binade x \<Longrightarrow> p2 (binade x) \<le> x"
  using floor_log_lower[of x] by (simp add: binade_def max_def split: if_splits)

lemma binade_mono: "0 < x \<Longrightarrow> x \<le> y \<Longrightarrow> binade x \<le> binade y"
  unfolding binade_def by (intro max.mono order_refl floor_mono) simp

lemma binade_ge: "- 1022 \<le> binade x" by (simp add: binade_def)

lemma ulp_pos: "0 < ulp x" by (simp add: ulp_def p2_pos)

lemma rounded_nonneg: "0 \<le> x \<Longrightarrow> 0 \<le> rounded x"
proof -
  assume "0 \<le> x"
  then have "0 \<le> x / ulp x" using ulp_pos[of x] by simp
  then have "0 \<le> round_half_even (x / ulp x)" using rhe_lower[of 0 "x / ulp x"] by simp
  then show ?thesis using ulp_pos[of x] by (simp add: rounded_def)
qed

lemma rounded_0: "rounded 0 = 0"
  using rhe_of_int[of 0] by (simp add: rounded_def)

lemma p2_split: "p2 (e + 1) = of_int (2 ^ 53) * p2 (e - 52)"
proof -
  have "p2 (e + 1) = p2 (53 + (e - 52))" by (rule arg_cong[of _ _ p2]) simp
  also have "\<dots> = p2 53 * p2 (e - 52)" by (rule p2_add)
  also have "p2 53 = of_int (2 ^ 53)" using p2_nat[of 53] by simp
  finally show ?thesis .
qed

lemma p2_split0: "p2 e = of_int (2 ^ 52) * p2 (e - 52)"
proof -
  have "p2 e = p2 (52 + (e - 52))" by (rule arg_cong[of _ _ p2]) simp
  also have "\<dots> = p2 52 * p2 (e - 52)" by (rule p2_add)
  also have "p2 52 = of_int (2 ^ 52)" using p2_nat[of 52] by simp
  finally show ?thesis .
qed

lemma rhe_scaled_upper: "0 < x \<Longrightarrow> round_half_even (x / ulp x) \<le> 2 ^ 53"
proof -
  assume x: "0 < x"
  have "x < of_int (2 ^ 53) * ulp x"
    using binade_upper[OF x] p2_split[of "binade x"] by (simp add: ulp_def)
  then have "x / ulp x \<le> of_int (2 ^ 53)"
    using ulp_pos[of x] by (simp add: field_simps)
  then show ?thesis by (rule rhe_upper)
qed

lemma rhe_scaled_lower: "0 < x \<Longrightarrow> - 1022 < binade x \<Longrightarrow> 2 ^ 52 \<le> round_half_even (x / ulp x)"
proof -
  assume x: "0 < x" and b: "- 1022 < binade x"
  have "of_int (2 ^ 52) * ulp x \<le> x"
    using binade_lower[OF x b] p2_split0[of "binade x"] by (simp add: ulp_def)
  then have "of_int (2 ^ 52) \<le> x / ulp x"
    using ulp_pos[of x] by (simp add: field_simps)
  then show ?thesis by (rule rhe_lower)
qed

lemma rounded_upper: "0 < x \<Longrightarrow> rounded x \<le> p2 (binade x + 1)"
proof -
  assume x: "0 < x"
  have "of_int (round_half_even (x / ulp x)) * ulp x \<le> of_int (2 ^ 53) * ulp x"
    using rhe_scaled_upper[OF x] ulp_pos[of x] by (intro mult_right_mono) (simp_all add: of_int_le_iff[symmetric] del: of_int_le_iff)
  then show ?thesis using p2_split[of "binade x"] by (simp add: rounded_def ulp_def)
qed

lemma rounded_lower: "0 < x \<Longrightarrow> - 1022 < binade x \<Longrightarrow> p2 (binade x) \<le> rounded x"
proof -
  assume x: "0 < x" and b: "- 1022 < binade x"
  have "of_int (2 ^ 52) * ulp x \<le> of_int (round_half_even (x / ulp x)) * ulp x"
    using rhe_scaled_lower[OF x b] ulp_pos[of x] by (intro mult_right_mono) (simp_all add: of_int_le_iff[symmetric] del: of_int_le_iff)
  then show ?thesis using p2_split0[of "binade x"] by (simp add: rounded_def ulp_def)
qed

lemma rounded_mono: "0 \<le> x \<Longrightarrow> x \<le> y \<Longrightarrow> rounded x \<le> rounded y"
proof -
  assume x0: "0 \<le> x" and xy: "x \<le> y"
  show ?thesis
  proof (cases "x = 0")
    case True
    then show ?thesis using rounded_nonneg[of y] xy by (simp add: rounded_0)
  next
    case False
    then have x: "0 < x" and y: "0 < y" using x0 xy by auto
    show ?thesis
    proof (cases "binade x = binade y")
      case True
      then have u: "ulp x = ulp y" by (simp add: ulp_def)
      have "x / ulp y \<le> y / ulp y" using xy ulp_pos[of y] by (simp add: divide_right_mono)
      then have "round_half_even (x / ulp y) \<le> round_half_even (y / ulp y)" by (rule rhe_mono)
      then show ?thesis using ulp_pos[of y] by (simp add: rounded_def u mult_right_mono)
    next
      case False
      then have lt: "binade x < binade y" using binade_mono[OF x xy] by simp
      then have "- 1022 < binade y" using binade_ge[of x] by linarith
      then have "p2 (binade y) \<le> rounded y" by (rule rounded_lower[OF y])
      moreover have "p2 (binade x + 1) \<le> p2 (binade y)" using lt by (intro p2_mono) simp
      ultimately show ?thesis using rounded_upper[OF x] by linarith
    qed
  qed
qed


lemma rounded_of_int_mult: "rounded x = x" if "x = of_int n * ulp x" for n
proof -
  have "x / ulp x = of_int n" using that ulp_pos[of x] by (simp add: field_simps)
  then show ?thesis using that by (simp add: rounded_def rhe_of_int)
qed

lemma rounded_exact:
  assumes m: "0 < m" "m < 2 ^ 53" and k: "- 1074 \<le> k"
  shows "rounded (of_int m * p2 k) = of_int m * p2 k"
proof -
  let ?x = "of_int m * p2 k"
  have x: "0 < ?x" using m(1) p2_pos[of k] by simp
  have e: "binade ?x - 52 \<le> k"
  proof (cases "- 1022 < binade ?x")
    case True
    have "?x < of_int (2 ^ 53) * p2 k"
      using m(2) p2_pos[of k] by (intro mult_strict_right_mono) (simp_all add: of_int_less_iff[symmetric] del: of_int_less_iff)
    also have "\<dots> = p2 (k + 52 + 1)" using p2_split[of "k + 52"] by simp
    finally have "p2 (binade ?x) < p2 (k + 52 + 1)" using binade_lower[OF x True] by linarith
    then have "binade ?x < k + 52 + 1" by (simp add: p2_def)
    then show ?thesis by simp
  next
    case False
    then have "binade ?x = - 1022" using binade_ge[of ?x] by linarith
    then show ?thesis using k by simp
  qed
  define j where "j = k - (binade ?x - 52)"
  have j: "0 \<le> j" using e by (simp add: j_def)
  have "p2 k = p2 (j + (binade ?x - 52))" by (rule arg_cong[of _ _ p2]) (simp add: j_def)
  also have "\<dots> = of_int (2 ^ nat j) * ulp ?x" by (simp add: p2_add p2_nat[OF j] ulp_def)
  finally have "?x = of_int (m * 2 ^ nat j) * ulp ?x" by simp
  then show ?thesis by (rule rounded_of_int_mult)
qed

lemma rounded_idem: "0 \<le> x \<Longrightarrow> rounded (rounded x) = rounded x"
proof -
  assume x0: "0 \<le> x"
  define n where "n = round_half_even (x / ulp x)"
  have r: "rounded x = of_int n * p2 (binade x - 52)" by (simp add: rounded_def n_def ulp_def)
  show ?thesis
  proof (cases "x = 0")
    case True
    then show ?thesis by (simp add: rounded_0)
  next
    case False
    then have x: "0 < x" using x0 by simp
    have n0: "0 \<le> n" using rounded_nonneg[OF x0] p2_pos[of "binade x - 52"]
      by (simp add: r zero_le_mult_iff)
    have n53: "n \<le> 2 ^ 53" unfolding n_def by (rule rhe_scaled_upper[OF x])
    have k: "- 1074 \<le> binade x - 52" using binade_ge[of x] by simp
    consider "n = 0" | "0 < n" "n < 2 ^ 53" | "n = 2 ^ 53" using n0 n53 by linarith
    then show ?thesis
    proof cases
      case 1
      then show ?thesis by (simp add: r rounded_0)
    next
      case 2
      then show ?thesis unfolding r by (intro rounded_exact k)
    next
      case 3
      have "rounded x = of_int (2 ^ 52) * p2 (binade x - 51)"
        using p2_split[of "binade x"] p2_split0[of "binade x + 1"] by (simp add: r 3)
      moreover have "rounded (of_int (2 ^ 52) * p2 (binade x - 51)) = of_int (2 ^ 52) * p2 (binade x - 51)"
        using k by (intro rounded_exact) simp_all
      ultimately show ?thesis by simp
    qed
  qed
qed

lemma rounded_1: "rounded 1 = 1"
  using rounded_exact[of 1 0] by (simp add: p2_def)


text \<open>
  Along the loop the weighted total stays between 0 and the collateral total, as long as
  the collateral total is finite; once it is not, it never becomes finite again.
\<close>

lemma to_double_0: "to_double 0 = Finite 0"
  by (simp add: to_double_def rounded_0)

lemma to_double_Finite:
  "to_double x = Finite b \<Longrightarrow> b = rounded x \<and> b < 2 ^ 1024 \<and> - (2 ^ 1024) < b"
  by (auto simp: to_double_def Let_def split: if_splits)

lemma to_double_mono:
  assumes "0 \<le> x" and "x \<le> y" and "to_double y = Finite b"
  shows "\<exists>a. to_double x = Finite a \<and> 0 \<le> a \<and> a \<le> b"
proof -
  have b: "b = rounded y" "b < 2 ^ 1024" using to_double_Finite[OF assms(3)] by auto
  have "rounded x \<le> b" using rounded_mono[OF assms(1,2)] b(1) by simp
  moreover have "0 \<le> rounded x" using rounded_nonneg[OF assms(1)] .
  ultimately show ?thesis using b(2) by (simp add: to_double_def)
qed

lemma to_double_representable:
  assumes "0 \<le> x" and "to_double x = Finite b"
  shows "0 \<le> b \<and> to_double b = Finite b"
proof -
  have b: "b = rounded x" "b < 2 ^ 1024" using to_double_Finite[OF assms(2)] by auto
  have "0 \<le> b" using rounded_nonneg[OF assms(1)] b(1) by simp
  moreover have "rounded b = b" using rounded_idem[OF assms(1)] b(1) by simp
  ultimately show ?thesis using b(2) by (simp add: to_double_def)
qed

lemma to_double_1: "to_double 1 = Finite 1"
  by (simp add: to_double_def rounded_1)

lemma double_add_Finite:
  "double_add a b = Finite c \<Longrightarrow> \<exists>x y. a = Finite x \<and> b = Finite y \<and> to_double (x + y) = Finite c"
  by (cases a; cases b) (auto split: if_splits)

lemma pow10_double_cases:
  "pow10_double d = PlusInfinity \<or> (\<exists>q. pow10_double d = Finite q \<and> 0 < q)"
proof -
  have "rounded 1 \<le> rounded (10 ^ d)" by (intro rounded_mono) simp_all
  then have "0 < rounded (10 ^ d)" by (simp add: rounded_1)
  then show ?thesis by (auto simp: pow10_double_def to_double_def Let_def)
qed

lemma collateralValueETH_double_Finite:
  assumes "counts_as_collateral_double r"
    and "as_double (priceInEth r) = Finite p" and "0 \<le> p"
    and "collateralValueETH_double r = Finite v"
  shows "0 \<le> v \<and> to_double v = Finite v"
proof -
  let ?bal = "as_double (currentATokenBalance r)"
  let ?amount = "double_div ?bal (pow10_double (decimals r))"
  have bal: "?bal = PlusInfinity \<or> (\<exists>b. ?bal = Finite b \<and> 0 < b)"
    using assms(1) by (cases ?bal) (auto simp: counts_as_collateral_double_def)
  have amount: "?amount = NotANumber \<or> ?amount = PlusInfinity \<or> (\<exists>a. ?amount = Finite a \<and> 0 \<le> a)"
  proof -
    from bal pow10_double_cases[of "decimals r"] show ?thesis
    proof (elim disjE exE conjE)
      fix b q assume h: "?bal = Finite b" "0 < b" "pow10_double (decimals r) = Finite q" "0 < q"
      have "to_double (b / q) = PlusInfinity \<or> (\<exists>a. to_double (b / q) = Finite a \<and> 0 \<le> a)"
        using rounded_nonneg[of "b / q"] h(2,4) by (auto simp: to_double_def Let_def)
      then show ?thesis using h by auto
    qed auto
  qed
  from amount obtain a where a: "?amount = Finite a" "0 \<le> a"
    using assms(2,4) by (auto simp: collateralValueETH_double_def split: if_splits)
  have "to_double (a * p) = Finite v"
    using assms(2,4) a(1) by (simp add: collateralValueETH_double_def)
  then show ?thesis using to_double_representable[of "a * p" v] a(2) assms(3) by simp
qed

lemma reserve_step_double_collateral:
  "counts_as_collateral_double r \<Longrightarrow>
     \<exists>d'. reserve_step_double r (c, d, w) =
       (double_add c (collateralValueETH_double r), d',
        double_add w (double_mul (collateralValueETH_double r) (liquidationThreshold_double r)))"
  by (simp add: reserve_step_double_def Let_def)

lemma reserve_step_double_other:
  "\<not> counts_as_collateral_double r \<Longrightarrow> \<exists>d'. reserve_step_double r (c, d, w) = (c, d', w)"
  by (simp add: reserve_step_double_def Let_def)

lemma fold_collateral_not_Finite:
  "\<forall>x. c0 \<noteq> Finite x \<Longrightarrow> \<forall>x. fst (fold reserve_step_double rs (c0, d0, w0)) \<noteq> Finite x"
proof (induction rs arbitrary: c0 d0 w0)
  case Nil
  then show ?case by simp
next
  case (Cons r rs)
  have n: "\<forall>x. double_add c0 (collateralValueETH_double r) \<noteq> Finite x"
    using Cons.prems double_add_Finite[of c0 "collateralValueETH_double r"] by blast
  obtain c1 d1 w1 where s: "reserve_step_double r (c0, d0, w0) = (c1, d1, w1)" "\<forall>x. c1 \<noteq> Finite x"
    using reserve_step_double_collateral[of r c0 d0 w0] reserve_step_double_other[of r c0 d0 w0]
      n Cons.prems
    by (cases "counts_as_collateral_double r") auto
  show ?case using Cons.IH[OF s(2), of d1 w1] by (simp add: s(1))
qed

lemma weighted_invariant:
  assumes "\<forall>r \<in> set rs. counts_as_collateral_double r \<longrightarrow>
          ((\<exists>p. as_double (priceInEth r) = Finite p \<and> 0 \<le> p)
          \<and> (\<exists>t. liquidationThreshold_double r = Finite t \<and> 0 \<le> t \<and> t \<le> 1))"
    and "fold reserve_step_double rs (Finite c0, d0, Finite w0) = (Finite c, d, w)"
    and "0 \<le> w0" and "w0 \<le> c0"
  shows "\<exists>w'. w = Finite w' \<and> 0 \<le> w' \<and> w' \<le> c"
  using assms
proof (induction rs arbitrary: c0 d0 w0)
  case Nil
  then show ?case by auto
next
  case (Cons r rs)
  show ?case
  proof (cases "counts_as_collateral_double r")
    case False
    then obtain d1 where "fold reserve_step_double rs (Finite c0, d1, Finite w0) = (Finite c, d, w)"
      using Cons.prems(2) reserve_step_double_other[of r "Finite c0" d0 "Finite w0"] by auto
    then show ?thesis using Cons.IH[of c0 d1 w0] Cons.prems by simp
  next
    case True
    let ?v = "collateralValueETH_double r"
    let ?c1 = "double_add (Finite c0) ?v"
    let ?w1 = "double_add (Finite w0) (double_mul ?v (liquidationThreshold_double r))"
    obtain d1 where f: "fold reserve_step_double rs (?c1, d1, ?w1) = (Finite c, d, w)"
      using Cons.prems(2) reserve_step_double_collateral[OF True, of "Finite c0" d0 "Finite w0"] by auto
    have "\<exists>x. ?c1 = Finite x"
      using fold_collateral_not_Finite[of ?c1 rs d1 ?w1] f by auto
    then obtain c1 where c1: "?c1 = Finite c1" by blast
    then obtain v where v: "?v = Finite v" "to_double (c0 + v) = Finite c1"
      using double_add_Finite[of "Finite c0" ?v c1] by auto
    from True Cons.prems(1) obtain p t where p: "as_double (priceInEth r) = Finite p" "0 \<le> p"
      and t: "liquidationThreshold_double r = Finite t" "0 \<le> t" "t \<le> 1"
      by auto
    have vr: "0 \<le> v" "to_double v = Finite v"
      using collateralValueETH_double_Finite[OF True p v(1)] by auto
    have "v * t \<le> v" using vr(1) t(3) by (simp add: mult_left_le)
    moreover have "0 \<le> v * t" using vr(1) t(2) by simp
    ultimately obtain x where x: "to_double (v * t) = Finite x" "0 \<le> x" "x \<le> v"
      using to_double_mono[of "v * t" v v] vr(2) by blast
    have "0 \<le> w0 + x" "w0 + x \<le> c0 + v" using Cons.prems(3,4) x(2,3) by auto
    then obtain w1 where w1: "to_double (w0 + x) = Finite w1" "0 \<le> w1" "w1 \<le> c1"
      using to_double_mono[of "w0 + x" "c0 + v" c1] v(2) by blast
    have "?w1 = Finite w1" using v(1) t(1) x(1) w1(1) by simp
    then have "fold reserve_step_double rs (Finite c1, d1, Finite w1) = (Finite c, d, w)"
      using f c1 by simp
    then show ?thesis using Cons.IH[of c1 d1 w1] Cons.prems(1) w1(2,3) by simp
  qed
qed

lemma to_double_exact:
  assumes "0 < m" and "m < 2 ^ 53" and "- 1074 \<le> k" and "k \<le> 971"
  shows "to_double (of_int m * p2 k) = Finite (of_int m * p2 k)"
proof -
  have r: "rounded (of_int m * p2 k) = of_int m * p2 k" using assms(1-3) by (rule rounded_exact)
  have "of_int m * p2 k < of_int (2 ^ 53) * p2 k"
    using assms(2) p2_pos[of k]
    by (intro mult_strict_right_mono) (simp_all add: of_int_less_iff[symmetric] del: of_int_less_iff)
  also have "\<dots> = p2 (k + 53)" using p2_split[of "k + 52"] by (simp add: add.commute)
  also have "\<dots> \<le> p2 1024" using assms(4) by (intro p2_mono) simp
  also have "p2 1024 = 2 ^ 1024" using p2_nat[of 1024] by simp
  finally have "of_int m * p2 k < 2 ^ 1024" .
  moreover have "0 < of_int m * p2 k" using assms(1) p2_pos[of k] by simp
  ultimately show ?thesis by (simp add: to_double_def r)
qed

lemma to_double_of_int: "0 \<le> m \<Longrightarrow> m < 2 ^ 53 \<Longrightarrow> to_double (of_int m) = Finite (of_int m)"
  using to_double_exact[of m 0] to_double_0 by (cases "m = 0") (simp_all add: p2_def)

text \<open>
  C9. In double arithmetic: for every user whose entries counted as collateral each have a
  price that is a non-negative number and a liquidation threshold that, as a fraction, lies
  in \<open>[0, 1]\<close>, and whose total collateral value is a finite number \<open>c\<close>: when \<open>c > 0\<close> the
  current liquidation threshold is the quotient of the weighted total by the total and is a
  number in \<open>[0, 1]\<close>, and when \<open>c = 0\<close> it is 0.
\<close>

theorem currentLiquidationThreshold_unit_interval:
  assumes "\<forall>r \<in> set (user_reserves u). counts_as_collateral_double r \<longrightarrow>
          ((\<exists>p. as_double (priceInEth r) = Finite p \<and> 0 \<le> p)
          \<and> (\<exists>t. liquidationThreshold_double r = Finite t \<and> 0 \<le> t \<and> t \<le> 1))"
    and "totalCollateralETH_double u = Finite c"
  shows "(0 < c \<longrightarrow>
           (\<exists>q. currentLiquidationThreshold_double u = Finite q \<and> 0 \<le> q \<and> q \<le> 1)
           \<and> currentLiquidationThreshold_double u
               = double_div (totalCollateralWithThreshold_double u) (totalCollateralETH_double u))
       \<and> (c = 0 \<longrightarrow> currentLiquidationThreshold_double u = Finite 0)"
proof -
  obtain c' d w where f: "fold reserve_step_double (user_reserves u) (Finite 0, Finite 0, Finite 0) = (c', d, w)"
    by (metis prod_cases3)
  then have c': "c' = Finite c" using assms(2) by (simp add: totalCollateralETH_double_def hf_totals_double_def)
  obtain w' where w: "w = Finite w'" "0 \<le> w'" "w' \<le> c"
    using weighted_invariant[OF assms(1), of 0 "Finite 0" 0 c d w] f c' by auto
  have tw: "totalCollateralWithThreshold_double u = Finite w'"
    using f w(1) by (simp add: totalCollateralWithThreshold_double_def hf_totals_double_def)
  show ?thesis
  proof (intro conjI impI)
    assume pos: "0 < c"
    have "0 \<le> w' / c" "w' / c \<le> 1" using pos w(2,3) by simp_all
    then obtain q where "to_double (w' / c) = Finite q" "0 \<le> q" "q \<le> 1"
      using to_double_mono[of "w' / c" 1 1] to_double_1 by blast
    then show "\<exists>q. currentLiquidationThreshold_double u = Finite q \<and> 0 \<le> q \<and> q \<le> 1"
      using pos tw assms(2) by (simp add: currentLiquidationThreshold_double_def)
    show "currentLiquidationThreshold_double u
               = double_div (totalCollateralWithThreshold_double u) (totalCollateralETH_double u)"
      using pos assms(2) by (simp add: currentLiquidationThreshold_double_def)
  next
    assume "c = 0"
    then show "currentLiquidationThreshold_double u = Finite 0"
      using assms(2) by (simp add: currentLiquidationThreshold_double_def)
  qed
qed

theorem currentLiquidationThreshold_unit_interval_witness:
  "totalCollateralETH_double
     \<lparr>user_id = ''0xa'', user_reserves =
       [\<lparr>symbol = ''WETH'', decimals = 0, liquidationThreshold = Num 5000, priceInEth = Num 1,
         currentATokenBalance = Num 10, currentVariableDebt = Num 0, currentStableDebt = Num 0,
         usageAsCollateralEnabledOnUser = True\<rparr>,
        \<lparr>symbol = ''DAI'', decimals = 0, liquidationThreshold = Num 10000, priceInEth = Num 1,
         currentATokenBalance = Num 6, currentVariableDebt = Num 4, currentStableDebt = Num 0,
         usageAsCollateralEnabledOnUser = True\<rparr>]\<rparr> = Finite 16
   \<and> currentLiquidationThreshold_double
     \<lparr>user_id = ''0xa'', user_reserves =
       [\<lparr>symbol = ''WETH'', decimals = 0, liquidationThreshold = Num 5000, priceInEth = Num 1,
         currentATokenBalance = Num 10, currentVariableDebt = Num 0, currentStableDebt = Num 0,
         usageAsCollateralEnabledOnUser = True\<rparr>,
        \<lparr>symbol = ''DAI'', decimals = 0, liquidationThreshold = Num 10000, priceInEth = Num 1,
         currentATokenBalance = Num 6, currentVariableDebt = Num 4, currentStableDebt = Num 0,
         usageAsCollateralEnabledOnUser = True\<rparr>]\<rparr> = Finite (11 / 16)
   \<and> (\<exists>q. currentLiquidationThreshold_double
     \<lparr>user_id = ''0xa'', user_reserves =
       [\<lparr>symbol = ''WETH'', decimals = 0, liquidationThreshold = Num 5000, priceInEth = Num 1,
         currentATokenBalance = Num 10, currentVariableDebt = Num 0, currentStableDebt = Num 0,
         usageAsCollateralEnabledOnUser = True\<rparr>,
        \<lparr>symbol = ''DAI'', decimals = 0, liquidationThreshold = Num 10000, priceInEth = Num 1,
         currentATokenBalance = Num 6, currentVariableDebt = Num 4, currentStableDebt = Num 0,
         usageAsCollateralEnabledOnUser = True\<rparr>]\<rparr> = Finite q \<and> 0 \<le> q \<and> q \<le> 1)"
proof -
  let ?u = "\<lparr>user_id = ''0xa'', user_reserves =
       [\<lparr>symbol = ''WETH'', decimals = 0, liquidationThreshold = Num 5000, priceInEth = Num 1,
         currentATokenBalance = Num 10, currentVariableDebt = Num 0, currentStableDebt = Num 0,
         usageAsCollateralEnabledOnUser = True\<rparr>,
        \<lparr>symbol = ''DAI'', decimals = 0, liquidationThreshold = Num 10000, priceInEth = Num 1,
         currentATokenBalance = Num 6, currentVariableDebt = Num 4, currentStableDebt = Num 0,
         usageAsCollateralEnabledOnUser = True\<rparr>]\<rparr>"
  have ints: "to_double 0 = Finite 0" "to_double 1 = Finite 1" "to_double 4 = Finite 4"
    "to_double 5 = Finite 5" "to_double 6 = Finite 6" "to_double 10 = Finite 10"
    "to_double 11 = Finite 11" "to_double 16 = Finite 16" "to_double 5000 = Finite 5000"
    "to_double 10000 = Finite 10000"
    using to_double_of_int[of 0] to_double_of_int[of 1] to_double_of_int[of 4] to_double_of_int[of 5]
      to_double_of_int[of 6] to_double_of_int[of 10] to_double_of_int[of 11] to_double_of_int[of 16]
      to_double_of_int[of 5000] to_double_of_int[of 10000]
    by simp_all
  have half: "to_double (1 / 2) = Finite (1 / 2)"
    using to_double_exact[of 1 "- 1"] by (simp add: p2_def powr_minus field_simps)
  have frac: "to_double (11 / 16) = Finite (11 / 16)"
    using to_double_exact[of 11 "- 4"] by (simp add: p2_def powr_minus field_simps)
  have totals: "hf_totals_double (user_reserves ?u) = (Finite 16, Finite 4, Finite 11)"
    by (simp add: hf_totals_double_def reserve_step_double_def counts_as_collateral_double_def
        totalDebt_double_def collateralValueETH_double_def debtValueETH_double_def
        liquidationThreshold_double_def pow10_double_def ints half)
  have c: "totalCollateralETH_double ?u = Finite 16"
    using totals by (simp add: totalCollateralETH_double_def)
  have clt: "currentLiquidationThreshold_double ?u = Finite (11 / 16)"
    using totals
    by (simp add: currentLiquidationThreshold_double_def totalCollateralETH_double_def
        totalCollateralWithThreshold_double_def frac)
  have ok: "\<forall>r \<in> set (user_reserves ?u). counts_as_collateral_double r \<longrightarrow>
          ((\<exists>p. as_double (priceInEth r) = Finite p \<and> 0 \<le> p)
          \<and> (\<exists>t. liquidationThreshold_double r = Finite t \<and> 0 \<le> t \<and> t \<le> 1))"
    by (auto simp: liquidationThreshold_double_def ints half intro!: exI[of _ "1 / 2"])
  have pos: "(0::real) < 16" by simp
  have "\<exists>q. currentLiquidationThreshold_double ?u = Finite q \<and> 0 \<le> q \<and> q \<le> 1"
    using currentLiquidationThreshold_unit_interval[OF ok c] pos by blast
  with c clt show ?thesis by blast
qed

text \<open>
  The bound needs the total to be finite. Far beyond the values of any asset, a balance and
  a price of \<open>1e200\<close> give a collateral value that overflows: the total is \<open>Infinity\<close>, which
  is greater than 0, the weighted total is \<open>Infinity\<close> too, and their quotient is \<open>NaN\<close>.
\<close>

lemma rounded_p2: "- 1074 \<le> k \<Longrightarrow> rounded (p2 k) = p2 k"
  using rounded_exact[of 1 k] by simp

lemma currentLiquidationThreshold_overflow:
  "totalCollateralETH_double
     \<lparr>user_id = ''0xa'', user_reserves =
       [\<lparr>symbol = ''WETH'', decimals = 0, liquidationThreshold = Num 5000, priceInEth = Num (10 ^ 200),
         currentATokenBalance = Num (10 ^ 200), currentVariableDebt = Num 0, currentStableDebt = Num 0,
         usageAsCollateralEnabledOnUser = True\<rparr>]\<rparr> = PlusInfinity
   \<and> currentLiquidationThreshold_double
     \<lparr>user_id = ''0xa'', user_reserves =
       [\<lparr>symbol = ''WETH'', decimals = 0, liquidationThreshold = Num 5000, priceInEth = Num (10 ^ 200),
         currentATokenBalance = Num (10 ^ 200), currentVariableDebt = Num 0, currentStableDebt = Num 0,
         usageAsCollateralEnabledOnUser = True\<rparr>]\<rparr> = NotANumber"
proof -
  let ?u = "\<lparr>user_id = ''0xa'', user_reserves =
       [\<lparr>symbol = ''WETH'', decimals = 0, liquidationThreshold = Num 5000, priceInEth = Num (10 ^ 200),
         currentATokenBalance = Num (10 ^ 200), currentVariableDebt = Num 0, currentStableDebt = Num 0,
         usageAsCollateralEnabledOnUser = True\<rparr>]\<rparr>"
  define b where "b = rounded (10 ^ 200)"
  have lo: "p2 664 \<le> (10::real) ^ 200" and hi: "(10::real) ^ 200 \<le> p2 665"
    using p2_nat[of 664] p2_nat[of 665] by simp_all
  have b_lo: "p2 664 \<le> b"
    using rounded_mono[OF _ lo] rounded_p2[of 664] p2_pos[of 664] by (simp add: b_def)
  have b_hi: "b \<le> p2 665"
    using rounded_mono[OF _ hi] rounded_p2[of 665] by (simp add: b_def)
  have "p2 665 < 2 ^ 1024" using p2_nat[of 665] by simp
  with b_hi have b_fin: "b < 2 ^ 1024" by linarith
  have b_pos: "0 < b" using b_lo p2_pos[of 664] by linarith
  have tb: "to_double (10 ^ 200) = Finite b"
    unfolding to_double_def Let_def b_def[symmetric] using b_fin b_pos by simp
  have tbb: "to_double b = Finite b"
    using to_double_representable[OF _ tb] by simp
  have "p2 1024 = p2 664 * p2 360" using p2_add[of 664 360] by simp
  also have "\<dots> \<le> b * b"
  proof (rule mult_mono)
    show "p2 664 \<le> b" by (rule b_lo)
    have "p2 360 \<le> p2 664" by (rule p2_mono) simp
    then show "p2 360 \<le> b" using b_lo by linarith
  qed (use b_pos p2_pos[of 360] in simp_all)
  finally have "rounded (p2 1024) \<le> rounded (b * b)"
    using p2_pos[of 1024] by (intro rounded_mono) simp_all
  then have "2 ^ 1024 \<le> rounded (b * b)"
    using rounded_p2[of 1024] p2_nat[of 1024] by simp
  then have over: "to_double (b * b) = PlusInfinity" by (simp add: to_double_def)
  have ints: "to_double 0 = Finite 0" "to_double 1 = Finite 1" "to_double 5000 = Finite 5000"
    using to_double_of_int[of 0] to_double_of_int[of 1] to_double_of_int[of 5000] by simp_all
  have half: "to_double (1 / 2) = Finite (1 / 2)"
    using to_double_exact[of 1 "- 1"] by (simp add: p2_def powr_minus field_simps)
  have totals: "hf_totals_double (user_reserves ?u) = (PlusInfinity, Finite 0, PlusInfinity)"
    using b_pos tb
    by (simp add: hf_totals_double_def reserve_step_double_def counts_as_collateral_double_def
        totalDebt_double_def collateralValueETH_double_def debtValueETH_double_def
        liquidationThreshold_double_def pow10_double_def ints half tbb over)
  show ?thesis
    using totals
    by (simp add: totalCollateralETH_double_def currentLiquidationThreshold_double_def
        totalCollateralWithThreshold_double_def)
qed

subsection \<open>The scan for opportunities\<close>

lemma process_users_band:
  "\<forall>p \<in> set ps. in_monitoring_range (pos_healthFactor p) mMin mMax \<Longrightarrow>
   \<forall>p \<in> set (snd (process_users ethPrice mMin mMax eMin eMax maxUsers us (n, ps))).
      in_monitoring_range (pos_healthFactor p) mMin mMax"
proof (induction us arbitrary: n ps)
  case Nil
  then show ?case by simp
next
  case (Cons u us)
  show ?case
  proof (cases "maxUsers \<le> n")
    case True
    then show ?thesis using Cons.prems by simp
  next
    case False
    let ?h = "calculateHealthFactor u"
    let ?ps' = "(if in_monitoring_range (healthFactor ?h) mMin mMax
               then (case convertToLiquidationPosition ethPrice ?h eMin eMax of
                       Some position \<Rightarrow> ps @ [position]
                     | None \<Rightarrow> ps)
               else ps)"
    have "\<forall>p \<in> set ?ps'. in_monitoring_range (pos_healthFactor p) mMin mMax"
      using Cons.prems by (auto split: option.splits dest: convert_healthFactor)
    from Cons.IH[OF this, of "n + 1"] False show ?thesis by (simp add: Let_def)
  qed
qed

lemma scan_loop_band:
  "scan_loop request ethPrice mMin mMax eMin eMax maxUsers skip n ps = Some qs \<Longrightarrow>
   \<forall>p \<in> set ps. in_monitoring_range (pos_healthFactor p) mMin mMax \<Longrightarrow>
   \<forall>p \<in> set qs. in_monitoring_range (pos_healthFactor p) mMin mMax"
proof (induction request ethPrice mMin mMax eMin eMax maxUsers skip n ps rule: scan_loop.induct)
  case (1 request ethPrice mMin mMax eMin eMax maxUsers skip n ps)
  show ?case
  proof (cases "n < maxUsers")
    case False
    then show ?thesis using "1.prems" by (simp add: scan_loop.simps)
  next
    case True
    from "1.prems"(1) True obtain vs where vs: "request UsersWithDebt (min batchSize (maxUsers - n)) skip = Some vs"
      by (subst (asm) scan_loop.simps) (auto split: option.splits)
    from "1.prems"(1) True vs obtain ss where ss: "request UsersWithStableDebt (min batchSize (maxUsers - n)) skip = Some ss"
      by (subst (asm) scan_loop.simps) (auto split: option.splits)
    show ?thesis
    proof (cases "dedupe (vs @ ss) = []")
      case True
      then show ?thesis using "1.prems" \<open>n < maxUsers\<close> vs ss
        by (subst (asm) scan_loop.simps) simp
    next
      case False
      let ?batch = "process_users ethPrice mMin mMax eMin eMax maxUsers (dedupe (vs @ ss)) (n, ps)"
      have step: "scan_loop request ethPrice mMin mMax eMin eMax maxUsers (skip + batchSize) (fst ?batch) (snd ?batch) = Some qs"
        using "1.prems"(1) \<open>n < maxUsers\<close> vs ss False
        by (subst (asm) scan_loop.simps) (simp add: Let_def)
      have band: "\<forall>p \<in> set (snd ?batch). in_monitoring_range (pos_healthFactor p) mMin mMax"
        using process_users_band[OF "1.prems"(2)] by blast
      show ?thesis
        using "1.IH"[OF \<open>n < maxUsers\<close> vs ss refl False refl step band] .
    qed
  qed
qed

lemma set_insert_sorted: "set (insert_sorted x ys) = insert x (set ys)"
  by (induction ys) auto

lemma set_array_sort: "set (array_sort ps) = set ps"
  by (induction ps) (simp_all add: array_sort_def set_insert_sorted)

lemma sorted_insert_sorted:
  assumes "\<exists>v. pos_healthFactor x = Num v" and "\<forall>y \<in> set ys. \<exists>v. pos_healthFactor y = Num v"
    and "sorted_wrt hf_le ys"
  shows "sorted_wrt hf_le (insert_sorted x ys)"
  using assms
proof (induction ys)
  case Nil
  then show ?case by simp
next
  case (Cons y ys)
  from Cons.prems obtain a b where ab: "pos_healthFactor x = Num a" "pos_healthFactor y = Num b" by auto
  show ?case
  proof (cases "b < a")
    case True
    then have "insert_sorted x (y # ys) = y # insert_sorted x ys"
      using ab by (simp add: compare_health_def)
    moreover have "sorted_wrt hf_le (insert_sorted x ys)" using Cons by simp
    moreover have "\<forall>z \<in> set (insert_sorted x ys). hf_le y z"
      using Cons.prems(3) True ab by (auto simp: set_insert_sorted hf_le_def)
    ultimately show ?thesis by simp
  next
    case False
    then have eq: "insert_sorted x (y # ys) = x # y # ys"
      using ab by (simp add: compare_health_def)
    have xy: "hf_le x y" using False ab by (simp add: hf_le_def)
    have "\<forall>z \<in> set ys. hf_le x z"
    proof
      fix z assume z: "z \<in> set ys"
      then obtain c where c: "pos_healthFactor z = Num c" using Cons.prems(2) by auto
      from z Cons.prems(3) have "hf_le y z" by simp
      then show "hf_le x z" using False ab c by (simp add: hf_le_def)
    qed
    then show ?thesis using eq xy Cons.prems(3) by simp
  qed
qed

lemma sorted_array_sort:
  "\<forall>y \<in> set ps. \<exists>v. pos_healthFactor y = Num v \<Longrightarrow> sorted_wrt hf_le (array_sort ps)"
proof (induction ps)
  case Nil
  then show ?case by (simp add: array_sort_def)
next
  case (Cons p ps)
  have "array_sort (p # ps) = insert_sorted p (array_sort ps)" by (simp add: array_sort_def)
  then show ?case using Cons sorted_insert_sorted[of p "array_sort ps"]
    by (simp add: set_array_sort)
qed

lemma in_monitoring_range_Num:
  "in_monitoring_range hf mMin mMax \<Longrightarrow> \<exists>v. hf = Num v"
  by (cases hf) (simp_all add: in_monitoring_range_def)

text \<open>
  C10. Every list \<open>getLiquidationOpportunities\<close> returns is sorted in ascending order of
  health factor, and the health factor of every position in it lies in
  \<open>[monitoringMin, monitoringMax]\<close>; this holds for every subgraph, also one whose requests
  fail (the result is then empty).
\<close>

theorem getLiquidationOpportunities_sorted_in_band:
  "sorted_wrt (\<lambda>a b. num_le (pos_healthFactor a) (pos_healthFactor b))
      (getLiquidationOpportunities request ethPrice monitoringMin monitoringMax executionMin executionMax maxUsers)
   \<and> (\<forall>p \<in> set (getLiquidationOpportunities request ethPrice monitoringMin monitoringMax executionMin executionMax maxUsers).
         num_ge (pos_healthFactor p) monitoringMin \<and> num_le (pos_healthFactor p) monitoringMax)"
proof (cases "scan_loop request ethPrice monitoringMin monitoringMax executionMin executionMax maxUsers 0 0 []")
  case None
  then show ?thesis by (simp add: getLiquidationOpportunities_def)
next
  case (Some qs)
  have band: "\<forall>p \<in> set qs. in_monitoring_range (pos_healthFactor p) monitoringMin monitoringMax"
    using scan_loop_band[OF Some] by simp
  then have "\<forall>p \<in> set qs. \<exists>v. pos_healthFactor p = Num v"
    by (blast dest: in_monitoring_range_Num)
  then have "sorted_wrt hf_le (array_sort qs)" by (rule sorted_array_sort)
  then have "sorted_wrt (\<lambda>a b. num_le (pos_healthFactor a) (pos_healthFactor b)) (array_sort qs)"
    by (simp add: hf_le_def[abs_def])
  then show ?thesis using band Some
    by (simp add: getLiquidationOpportunities_def set_array_sort in_monitoring_range_def)
qed


theorem getLiquidationOpportunities_sorted_in_band_witness:
  "map pos_healthFactor
    (getLiquidationOpportunities
      (\<lambda>q first skip. if skip = 0 then
          Some [\<lparr>user_id = ''0xa'', user_reserves =
                  [\<lparr>symbol = ''WETH'', decimals = 0, liquidationThreshold = Num 8600, priceInEth = Num 1,
                    currentATokenBalance = Num 10, currentVariableDebt = Num 0, currentStableDebt = Num 0,
                    usageAsCollateralEnabledOnUser = True\<rparr>,
                   \<lparr>symbol = ''DAI'', decimals = 0, liquidationThreshold = Num 7500, priceInEth = Num 1,
                    currentATokenBalance = Num 0, currentVariableDebt = Num 10, currentStableDebt = Num 0,
                    usageAsCollateralEnabledOnUser = False\<rparr>]\<rparr>,
                \<lparr>user_id = ''0xb'', user_reserves =
                  [\<lparr>symbol = ''WETH'', decimals = 0, liquidationThreshold = Num 8000, priceInEth = Num 1,
                    currentATokenBalance = Num 10, currentVariableDebt = Num 0, currentStableDebt = Num 0,
                    usageAsCollateralEnabledOnUser = True\<rparr>,
                   \<lparr>symbol = ''DAI'', decimals = 0, liquidationThreshold = Num 7500, priceInEth = Num 1,
                    currentATokenBalance = Num 0, currentVariableDebt = Num 10, currentStableDebt = Num 0,
                    usageAsCollateralEnabledOnUser = False\<rparr>]\<rparr>]
        else Some [])
      (Num 3200) (Num (75 / 100)) (Num (105 / 100)) (Num (85 / 100)) (Num (87 / 100)) 100)
    = [Num (8 / 10), Num (86 / 100)]
   \<and> sorted_wrt (\<lambda>a b. num_le (pos_healthFactor a) (pos_healthFactor b))
    (getLiquidationOpportunities
      (\<lambda>q first skip. if skip = 0 then
          Some [\<lparr>user_id = ''0xa'', user_reserves =
                  [\<lparr>symbol = ''WETH'', decimals = 0, liquidationThreshold = Num 8600, priceInEth = Num 1,
                    currentATokenBalance = Num 10, currentVariableDebt = Num 0, currentStableDebt = Num 0,
                    usageAsCollateralEnabledOnUser = True\<rparr>,
                   \<lparr>symbol = ''DAI'', decimals = 0, liquidationThreshold = Num 7500, priceInEth = Num 1,
                    currentATokenBalance = Num 0, currentVariableDebt = Num 10, currentStableDebt = Num 0,
                    usageAsCollateralEnabledOnUser = False\<rparr>]\<rparr>,
                \<lparr>user_id = ''0xb'', user_reserves =
                  [\<lparr>symbol = ''WETH'', decimals = 0, liquidationThreshold = Num 8000, priceInEth = Num 1,
                    currentATokenBalance = Num 10, currentVariableDebt = Num 0, currentStableDebt = Num 0,
                    usageAsCollateralEnabledOnUser = True\<rparr>,
                   \<lparr>symbol = ''DAI'', decimals = 0, liquidationThreshold = Num 7500, priceInEth = Num 1,
                    currentATokenBalance = Num 0, currentVariableDebt = Num 10, currentStableDebt = Num 0,
                    usageAsCollateralEnabledOnUser = False\<rparr>]\<rparr>]
        else Some [])
      (Num 3200) (Num (75 / 100)) (Num (105 / 100)) (Num (85 / 100)) (Num (87 / 100)) 100)"
proof -
  have "map pos_healthFactor
    (getLiquidationOpportunities
      (\<lambda>q first skip. if skip = 0 then
          Some [\<lparr>user_id = ''0xa'', user_reserves =
                  [\<lparr>symbol = ''WETH'', decimals = 0, liquidationThreshold = Num 8600, priceInEth = Num 1,
                    currentATokenBalance = Num 10, currentVariableDebt = Num 0, currentStableDebt = Num 0,
                    usageAsCollateralEnabledOnUser = True\<rparr>,
                   \<lparr>symbol = ''DAI'', decimals = 0, liquidationThreshold = Num 7500, priceInEth = Num 1,
                    currentATokenBalance = Num 0, currentVariableDebt = Num 10, currentStableDebt = Num 0,
                    usageAsCollateralEnabledOnUser = False\<rparr>]\<rparr>,
                \<lparr>user_id = ''0xb'', user_reserves =
                  [\<lparr>symbol = ''WETH'', decimals = 0, liquidationThreshold = Num 8000, priceInEth = Num 1,
                    currentATokenBalance = Num 10, currentVariableDebt = Num 0, currentStableDebt = Num 0,
                    usageAsCollateralEnabledOnUser = True\<rparr>,
                   \<lparr>symbol = ''DAI'', decimals = 0, liquidationThreshold = Num 7500, priceInEth = Num 1,
                    currentATokenBalance = Num 0, currentVariableDebt = Num 10, currentStableDebt = Num 0,
                    usageAsCollateralEnabledOnUser = False\<rparr>]\<rparr>]
        else Some [])
      (Num 3200) (Num (75 / 100)) (Num (105 / 100)) (Num (85 / 100)) (Num (87 / 100)) 100)
    = [Num (8 / 10), Num (86 / 100)]"
    by (simp add: getLiquidationOpportunities_def scan_loop.simps batchSize_def dedupe_def Let_def
        calculateHealthFactor_def hf_totals_def reserve_step_def counts_as_collateral_def
        totalDebt_def collateralValueETH_def debtValueETH_def pow10_def in_monitoring_range_def
        convertToLiquidationPosition_def largest_step_def largest_init_def status_of_def
        array_sort_def compare_health_def)
  then show ?thesis
    using getLiquidationOpportunities_sorted_in_band [of
      "(\<lambda>q first skip. if skip = 0 then
          Some [\<lparr>user_id = ''0xa'', user_reserves =
                  [\<lparr>symbol = ''WETH'', decimals = 0, liquidationThreshold = Num 8600, priceInEth = Num 1,
                    currentATokenBalance = Num 10, currentVariableDebt = Num 0, currentStableDebt = Num 0,
                    usageAsCollateralEnabledOnUser = True\<rparr>,
                   \<lparr>symbol = ''DAI'', decimals = 0, liquidationThreshold = Num 7500, priceInEth = Num 1,
                    currentATokenBalance = Num 0, currentVariableDebt = Num 10, currentStableDebt = Num 0,
                    usageAsCollateralEnabledOnUser = False\<rparr>]\<rparr>,
                \<lparr>user_id = ''0xb'', user_reserves =
                  [\<lparr>symbol = ''WETH'', decimals = 0, liquidationThreshold = Num 8000, priceInEth = Num 1,
                    currentATokenBalance = Num 10, currentVariableDebt = Num 0, currentStableDebt = Num 0,
                    usageAsCollateralEnabledOnUser = True\<rparr>,
                   \<lparr>symbol = ''DAI'', decimals = 0, liquidationThreshold = Num 7500, priceInEth = Num 1,
                    currentATokenBalance = Num 0, currentVariableDebt = Num 10, currentStableDebt = Num 0,
                    usageAsCollateralEnabledOnUser = False\<rparr>]\<rparr>]
        else Some [])"
      "Num 3200" "Num (75 / 100)" "Num (105 / 100)" "Num (85 / 100)" "Num (87 / 100)" 100]
    by blast
qed

subsection \<open>The position store\<close>

lemma no_arbiter_index: "\<not> arbiter_index liquidation_positions_indexes conflict_target"
  by (simp add: arbiter_index_def liquidation_positions_indexes_def conflict_target_def)

lemma upsert_rejected:
  "upsertLiquidationPosition liquidation_positions_indexes now k v table = Inl NoMatchingConstraint"
  by (simp add: upsertLiquidationPosition_def no_arbiter_index)

lemma apply_calls_rejected: "apply_calls liquidation_positions_indexes cs table = table"
  unfolding apply_calls_def
  by (induction cs arbitrary: table) (simp_all add: apply_call_def upsert_rejected)

text \<open>
  With a unique index on the four key columns the statement is accepted and leaves a row
  with the key and the values of the call.
\<close>

lemma upsert_accepted:
  assumes "arbiter_index indexes conflict_target"
  shows "\<exists>table'. upsertLiquidationPosition indexes now k v table = Inr table'
           \<and> list_ex (\<lambda>row. db_key row = k \<and> db_values row = v \<and> db_last_updated row = now) table'"
proof (cases "list_ex (\<lambda>row. db_key row = k) table")
  case True
  then obtain row where r: "row \<in> set table" "db_key row = k"
    by (auto simp: list_ex_iff)
  let ?f = "\<lambda>row. if db_key row = k then row\<lparr>db_values := v, db_last_updated := now\<rparr> else row"
  have "?f row \<in> set (map ?f table)"
    using r(1) by (simp only: set_map image_eqI)
  moreover have "db_key (?f row) = k \<and> db_values (?f row) = v \<and> db_last_updated (?f row) = now"
    using r(2) by simp
  ultimately have "list_ex (\<lambda>row. db_key row = k \<and> db_values row = v \<and> db_last_updated row = now)
                     (map ?f table)"
    unfolding list_ex_iff by blast
  then show ?thesis
    using assms True by (simp add: upsertLiquidationPosition_def)
next
  case False
  then show ?thesis
    using assms by (simp add: upsertLiquidationPosition_def)
qed

text \<open>
  C8. On the table \<open>schema.sql\<close> creates, every call of \<open>upsertLiquidationPosition\<close> is
  rejected by the database, whatever the key, the values and the rows already there: no
  unique index matches the conflict target. A sequence of calls therefore leaves the table as
  it was, and a store that starts empty never holds a record for any key.
\<close>

theorem upsertLiquidationPosition_stores_nothing:
  "upsertLiquidationPosition liquidation_positions_indexes now k v table = Inl NoMatchingConstraint
   \<and> apply_calls liquidation_positions_indexes cs table = table
   \<and> rows_with_key k (apply_calls liquidation_positions_indexes cs []) = []"
  by (simp add: upsert_rejected apply_calls_rejected rows_with_key_def)

theorem upsertLiquidationPosition_stores_nothing_witness:
  "upsertLiquidationPosition liquidation_positions_indexes 100 (1, ''0xabc'', ''WETH'', ''USDC'')
       \<lparr>pv_collateral_amount = ''2.0'', pv_debt_amount = ''1.8'', pv_health_factor = 9 / 10,
        pv_liquidation_threshold = 8 / 10, pv_liquidation_bonus = 5 / 100, pv_is_liquidatable = True\<rparr> []
     = Inl NoMatchingConstraint
   \<and> rows_with_key (1, ''0xabc'', ''WETH'', ''USDC'')
       (apply_calls liquidation_positions_indexes
         [\<lparr>call_source = 10, call_now = 100, call_key = (1, ''0xabc'', ''WETH'', ''USDC''),
           call_values = \<lparr>pv_collateral_amount = ''2.0'', pv_debt_amount = ''1.0'', pv_health_factor = 15 / 10,
             pv_liquidation_threshold = 8 / 10, pv_liquidation_bonus = 5 / 100, pv_is_liquidatable = False\<rparr>\<rparr>,
          \<lparr>call_source = 20, call_now = 110, call_key = (1, ''0xabc'', ''WETH'', ''USDC''),
           call_values = \<lparr>pv_collateral_amount = ''2.0'', pv_debt_amount = ''1.8'', pv_health_factor = 9 / 10,
             pv_liquidation_threshold = 8 / 10, pv_liquidation_bonus = 5 / 100, pv_is_liquidatable = True\<rparr>\<rparr>] [])
     = []"
  using upsertLiquidationPosition_stores_nothing [of 100 "(1, ''0xabc'', ''WETH'', ''USDC'')"
       "\<lparr>pv_collateral_amount = ''2.0'', pv_debt_amount = ''1.8'', pv_health_factor = 9 / 10,
        pv_liquidation_threshold = 8 / 10, pv_liquidation_bonus = 5 / 100, pv_is_liquidatable = True\<rparr>" "[]"
       "[\<lparr>call_source = 10, call_now = 100, call_key = (1, ''0xabc'', ''WETH'', ''USDC''),
           call_values = \<lparr>pv_collateral_amount = ''2.0'', pv_debt_amount = ''1.0'', pv_health_factor = 15 / 10,
             pv_liquidation_threshold = 8 / 10, pv_liquidation_bonus = 5 / 100, pv_is_liquidatable = False\<rparr>\<rparr>,
          \<lparr>call_source = 20, call_now = 110, call_key = (1, ''0xabc'', ''WETH'', ''USDC''),
           call_values = \<lparr>pv_collateral_amount = ''2.0'', pv_debt_amount = ''1.8'', pv_health_factor = 9 / 10,
             pv_liquidation_threshold = 8 / 10, pv_liquidation_bonus = 5 / 100, pv_is_liquidatable = True\<rparr>\<rparr>]"]
  by (simp add: rows_with_key_def)

end
